theory Spec2Isabelle
  imports Complex_Main "HOL-Library.Sublist"
begin

section \<open>Strings\<close>

text \<open>
  JavaScript's \<open>String.prototype.includes\<close>: does the pattern occur as a contiguous
  substring.  Strings are lists of characters.
\<close>

fun str_includes :: "string \<Rightarrow> string \<Rightarrow> bool" where
  "str_includes [] pat = (pat = [])"
| "str_includes (c # cs) pat = (prefix pat (c # cs) \<or> str_includes cs pat)"

section \<open>The retry wrapper\<close>

text \<open>
  A thrown value, as far as the code inspects it: its \<open>message\<close> property, its
  \<open>status\<close> property, and the text \<open>String(error)\<close> yields for it.  (A thrown
  \<open>null\<close> or \<open>undefined\<close>, on which reading \<open>message\<close> throws in turn, is not
  among these values.)
\<close>

record js_error =
  message :: "string option"
  status :: "int option"
  as_string :: string

text \<open>\<open>error.message || String(error)\<close>: an absent or empty message is falsy.\<close>

definition errorMsg :: "js_error \<Rightarrow> string" where
  "errorMsg e =
     (case message e of
        None \<Rightarrow> as_string e
      | Some m \<Rightarrow> if m \<noteq> [] then m else as_string e)"

definition isRetryable :: "js_error \<Rightarrow> bool" where
  "isRetryable e \<longleftrightarrow>
     str_includes (errorMsg e) ''429'' \<or>
     str_includes (errorMsg e) ''500'' \<or>
     str_includes (errorMsg e) ''503'' \<or>
     str_includes (errorMsg e) ''RESOURCE_EXHAUSTED'' \<or>
     status e = Some 429"

text \<open>
  The earlier variant of the wrapper (first service file): \<open>error.message?.includes(..)\<close>
  is undefined, hence falsy, when there is no message, and there is no quota marker.
\<close>

definition isRetryable_legacy :: "js_error \<Rightarrow> bool" where
  "isRetryable_legacy e \<longleftrightarrow>
     (case message e of None \<Rightarrow> False | Some m \<Rightarrow> str_includes m ''429'') \<or>
     (case message e of None \<Rightarrow> False | Some m \<Rightarrow> str_includes m ''500'') \<or>
     (case message e of None \<Rightarrow> False | Some m \<Rightarrow> str_includes m ''503'') \<or>
     status e = Some 429"

text \<open>
  What a run of the wrapper does besides returning: each \<open>await fn()\<close> is recorded as
  \<open>Attempt\<close>, each \<open>console.warn\<close> as \<open>Warn delay retries\<close>, each \<open>await sleep(delay)\<close>
  as \<open>Sleep delay\<close>, in the order they happen.
\<close>

datatype event = Attempt | Warn int int | Sleep int

text \<open>
  The operation \<open>fn\<close> is a zero-argument asynchronous function: it reads and changes the
  world \<open>'w\<close> it runs in, and either resolves (\<open>Inr\<close>) or rejects (\<open>Inl\<close>).  The wrapper
  returns the outcome, the world after the last attempt and the trace of events.
  \<open>retries\<close> and \<open>delay\<close> are JavaScript numbers, here integers.
\<close>

function callWithRetry ::
  "('w \<Rightarrow> (js_error + 'a) \<times> 'w) \<Rightarrow> int \<Rightarrow> int \<Rightarrow> 'w \<Rightarrow> (js_error + 'a) \<times> 'w \<times> event list"
where
  "callWithRetry fn retries delay w =
     (case fn w of
        (Inr v, w') \<Rightarrow> (Inr v, w', [Attempt])
      | (Inl e, w') \<Rightarrow>
          if retries > 0 \<and> isRetryable e then
            (case callWithRetry fn (retries - 1) (delay * 2) w' of
               (r, w'', evs) \<Rightarrow> (r, w'', [Attempt, Warn delay retries, Sleep delay] @ evs))
          else (Inl e, w', [Attempt]))"
  by pat_completeness auto
termination
  by (relation "measure (\<lambda>(fn, retries, delay, w). nat retries)") auto

function callWithRetry_legacy ::
  "('w \<Rightarrow> (js_error + 'a) \<times> 'w) \<Rightarrow> int \<Rightarrow> int \<Rightarrow> 'w \<Rightarrow> (js_error + 'a) \<times> 'w \<times> event list"
where
  "callWithRetry_legacy fn retries delay w =
     (case fn w of
        (Inr v, w') \<Rightarrow> (Inr v, w', [Attempt])
      | (Inl e, w') \<Rightarrow>
          if retries > 0 \<and> isRetryable_legacy e then
            (case callWithRetry_legacy fn (retries - 1) (delay * 2) w' of
               (r, w'', evs) \<Rightarrow> (r, w'', [Attempt, Warn delay retries, Sleep delay] @ evs))
          else (Inl e, w', [Attempt]))"
  by pat_completeness auto
termination
  by (relation "measure (\<lambda>(fn, retries, delay, w). nat retries)") auto

declare callWithRetry.simps [simp del]
declare callWithRetry_legacy.simps [simp del]

text \<open>The default tunings of the two variants.\<close>

definition default_retries :: int where "default_retries = 4"
definition default_delay :: int where "default_delay = 5000"
definition default_retries_legacy :: int where "default_retries_legacy = 3"
definition default_delay_legacy :: int where "default_delay_legacy = 2000"

text \<open>Reading a trace: how often the operation was attempted, and the waits in order.\<close>

fun attempts :: "event list \<Rightarrow> nat" where
  "attempts [] = 0"
| "attempts (Attempt # evs) = Suc (attempts evs)"
| "attempts (_ # evs) = attempts evs"

fun waits :: "event list \<Rightarrow> int list" where
  "waits [] = []"
| "waits (Sleep d # evs) = d # waits evs"
| "waits (_ # evs) = waits evs"

text \<open>The world before attempt number \<open>k\<close> (counted from 0), starting from \<open>w\<close>.\<close>

definition world_before :: "('w \<Rightarrow> (js_error + 'a) \<times> 'w) \<Rightarrow> nat \<Rightarrow> 'w \<Rightarrow> 'w" where
  "world_before fn k w = ((\<lambda>u. snd (fn u)) ^^ k) w"

text \<open>The operation rejects with a retryable error whenever it is called.\<close>

definition always_retryable :: "('w \<Rightarrow> (js_error + 'a) \<times> 'w) \<Rightarrow> bool" where
  "always_retryable fn \<longleftrightarrow> (\<forall>w. \<exists>e. fst (fn w) = Inl e \<and> isRetryable e)"

definition always_retryable_legacy :: "('w \<Rightarrow> (js_error + 'a) \<times> 'w) \<Rightarrow> bool" where
  "always_retryable_legacy fn \<longleftrightarrow> (\<forall>w. \<exists>e. fst (fn w) = Inl e \<and> isRetryable_legacy e)"

text \<open>The delays \<open>D, 2D, 4D, ..\<close>: \<open>n\<close> of them.\<close>

definition doubling :: "int \<Rightarrow> nat \<Rightarrow> int list" where
  "doubling D n = map (\<lambda>k. D * 2 ^ k) [0..<n]"

section \<open>Template literals\<close>

text \<open>Decimal rendering of an integer, as a template literal renders a number.\<close>

fun show_nat :: "nat \<Rightarrow> string" where
  "show_nat n =
     (if n < 10 then [''0123456789'' ! n]
      else show_nat (n div 10) @ [''0123456789'' ! (n mod 10)])"

declare show_nat.simps [simp del]

definition show_int :: "int \<Rightarrow> string" where
  "show_int i = (if i < 0 then CHR ''-'' # show_nat (nat (- i)) else show_nat (nat i))"

text \<open>\<open>Array.prototype.join\<close> on strings.\<close>

fun join :: "string \<Rightarrow> string list \<Rightarrow> string" where
  "join sep [] = []"
| "join sep [x] = x"
| "join sep (x # y # ys) = x @ sep @ join sep (y # ys)"

section \<open>The remote model\<close>

text \<open>
  A request to \<open>ai.models.generateContent\<close>: the text call sends a prompt string (its
  \<open>config\<close>, the JSON MIME type and the response schema, is the same constant in every
  call and is not represented); the image call sends a list of parts and an aspect ratio.
\<close>

datatype req_part = TextPart string | InlineDataPart string string

datatype request =
    GenerateText string string
  | GenerateImage string "req_part list" string

text \<open>
  A response, as far as the code reads it: the \<open>text\<close> accessor, and
  \<open>candidates[0].content.parts\<close>, every level of which may be absent.
\<close>

record inline_data =
  blob_mimeType :: "string option"
  blob_data :: "string option"

record part =
  part_text :: "string option"
  part_inlineData :: "inline_data option"

record content =
  content_parts :: "part list option"

record candidate =
  cand_content :: "content option"

record response =
  resp_text :: "string option"
  resp_candidates :: "candidate list option"

text \<open>
  The remote model is an opaque oracle: its answer to a call depends on how many calls
  came before and on the request.  The world of the client is the list of requests sent
  so far.
\<close>

type_synonym remote = "nat \<Rightarrow> request \<Rightarrow> js_error + response"

definition generateContent ::
  "remote \<Rightarrow> request \<Rightarrow> request list \<Rightarrow> (js_error + response) \<times> request list" where
  "generateContent rm req hist = (rm (length hist) req, hist @ [req])"

definition DEFAULT_MODELS_text :: string where
  "DEFAULT_MODELS_text = ''gemini-3-flash-preview''"

definition DEFAULT_MODELS_image :: string where
  "DEFAULT_MODELS_image = ''gemini-2.5-flash-image''"

section \<open>Reading the image out of a response\<close>

text \<open>\<open>response.candidates?.[0]?.content?.parts || []\<close>\<close>

definition response_parts :: "response \<Rightarrow> part list" where
  "response_parts r =
     (case resp_candidates r of
        None \<Rightarrow> []
      | Some [] \<Rightarrow> []
      | Some (c # _) \<Rightarrow>
          (case cand_content c of
             None \<Rightarrow> []
           | Some ct \<Rightarrow> (case content_parts ct of None \<Rightarrow> [] | Some ps \<Rightarrow> ps)))"

text \<open>\<open>new Error("No image data returned from API")\<close>\<close>

definition no_image_error :: js_error where
  "no_image_error =
     \<lparr>message = Some ''No image data returned from API'', status = None,
      as_string = ''Error: No image data returned from API''\<rparr>"

text \<open>
  The loop over the parts, the same in both image operations: the first part with
  \<open>inlineData\<close> decides; an absent \<open>data\<close> is rendered by the template as \<open>undefined\<close>.
\<close>

fun first_inline_image :: "part list \<Rightarrow> js_error + string" where
  "first_inline_image [] = Inl no_image_error"
| "first_inline_image (p # ps) =
     (case part_inlineData p of
        Some b \<Rightarrow>
          Inr (''data:image/png;base64,'' @
               (case blob_data b of None \<Rightarrow> ''undefined'' | Some d \<Rightarrow> d))
      | None \<Rightarrow> first_inline_image ps)"

section \<open>Characters and scenes\<close>

record CharacterTweaks =
  hair :: string
  clothing :: string
  appearance :: string
  personality :: string
  accessory :: string

record Character =
  c_id :: string
  c_name :: string
  c_description :: string
  c_sheetUrl :: "string option"
  c_uploadUrl :: "string option"
  c_isGenerating :: "bool option"
  c_tweaks :: CharacterTweaks

record SceneSliders =
  sl_tone :: int
  sl_excitement :: int
  sl_happiness :: int
  sl_energy :: int
  sl_tension :: int

record Scene =
  s_id :: int
  s_description :: string
  s_storyText :: string
  s_imageUrl :: "string option"
  s_isGenerating :: "bool option"
  s_sliders :: "SceneSliders option"

text \<open>\<open>Object.entries(tweaks)\<close>, in the order the object literals create the keys.\<close>

definition tweak_entries :: "CharacterTweaks \<Rightarrow> (string \<times> string) list" where
  "tweak_entries t =
     [(''hair'', hair t), (''clothing'', clothing t), (''appearance'', appearance t),
      (''personality'', personality t), (''accessory'', accessory t)]"

definition tweakStr :: "CharacterTweaks \<Rightarrow> string" where
  "tweakStr t =
     join '', '' (map (\<lambda>(k, v). k @ '': '' @ v) (filter (\<lambda>(k, v). v \<noteq> []) (tweak_entries t)))"

section \<open>generateCharacterSheet\<close>

definition textPrompt :: "Character \<Rightarrow> string \<Rightarrow> string \<Rightarrow> string" where
  "textPrompt character tone styleTags =
     ''Character Sheet for '' @ c_name character @ ''. Basic Concept: '' @
     c_description character @ ''. '' @
     (if tweakStr (c_tweaks character) \<noteq> []
      then ''Specific features: '' @ tweakStr (c_tweaks character) @ ''.'' else []) @
     '' Professional reference sheet showing front, side, and back views, solid white background, '' @
     tone @ '' tone, '' @ styleTags @
     ''. High quality character design. Use the attached image as the base reference for features and clothing.''"

text \<open>
  The regular expression \<open>/^data:(image\/[a-z]+);base64,(.+)$/\<close>, matched from the left:
  the letters of the subtype are the longest run of \<open>a\<close>..\<open>z\<close> (the next character must be
  the semicolon, which is not a letter), and \<open>.\<close> matches any character but a line
  terminator (of the 8-bit characters of this model: line feed and carriage return).
  The result is the two groups.
\<close>

definition is_lower :: "char \<Rightarrow> bool" where
  "is_lower c \<longleftrightarrow> 97 \<le> (of_char c :: nat) \<and> (of_char c :: nat) \<le> 122"

definition line_terminator :: "char \<Rightarrow> bool" where
  "line_terminator c \<longleftrightarrow> c = CHR 0x0A \<or> c = CHR 0x0D"

definition match_data_uri :: "string \<Rightarrow> (string \<times> string) option" where
  "match_data_uri url =
     (if prefix ''data:image/'' url then
        let rest = drop (length ''data:image/'') url;
            sub = takeWhile is_lower rest;
            rest' = dropWhile is_lower rest;
            payload = drop (length '';base64,'') rest'
        in if sub \<noteq> [] \<and> prefix '';base64,'' rest' \<and> payload \<noteq> [] \<and>
              list_all (\<lambda>c. \<not> line_terminator c) payload
           then Some (''image/'' @ sub, payload) else None
      else None)"

text \<open>What the pattern says, without a matching order.\<close>

definition data_uri_pattern :: "string \<Rightarrow> string \<Rightarrow> string \<Rightarrow> bool" where
  "data_uri_pattern url mime payload \<longleftrightarrow>
     (\<exists>sub. mime = ''image/'' @ sub \<and> sub \<noteq> [] \<and> list_all is_lower sub \<and>
            payload \<noteq> [] \<and> list_all (\<lambda>c. \<not> line_terminator c) payload \<and>
            url = ''data:'' @ mime @ '';base64,'' @ payload)"

text \<open>The parts sent: the text prompt, with the uploaded image put in front when it matches.\<close>

definition sheet_parts :: "Character \<Rightarrow> string \<Rightarrow> string \<Rightarrow> req_part list" where
  "sheet_parts character tone styleTags =
     (case c_uploadUrl character of
        None \<Rightarrow> [TextPart (textPrompt character tone styleTags)]
      | Some url \<Rightarrow>
          if url \<noteq> [] then
            (case match_data_uri url of
               Some (mime, payload) \<Rightarrow>
                 [InlineDataPart mime payload, TextPart (textPrompt character tone styleTags)]
             | None \<Rightarrow> [TextPart (textPrompt character tone styleTags)])
          else [TextPart (textPrompt character tone styleTags)])"

definition sheet_request :: "Character \<Rightarrow> string \<Rightarrow> string \<Rightarrow> request" where
  "sheet_request character tone styleTags =
     GenerateImage DEFAULT_MODELS_image (sheet_parts character tone styleTags) ''1:1''"

definition sheet_attempt ::
  "remote \<Rightarrow> Character \<Rightarrow> string \<Rightarrow> string \<Rightarrow> request list \<Rightarrow> (js_error + string) \<times> request list"
where
  "sheet_attempt rm character tone styleTags hist =
     (case generateContent rm (sheet_request character tone styleTags) hist of
        (Inl e, hist') \<Rightarrow> (Inl e, hist')
      | (Inr resp, hist') \<Rightarrow> (first_inline_image (response_parts resp), hist'))"

definition generateCharacterSheet ::
  "remote \<Rightarrow> Character \<Rightarrow> string \<Rightarrow> string \<Rightarrow> request list
     \<Rightarrow> (js_error + string) \<times> request list \<times> event list"
where
  "generateCharacterSheet rm character tone styleTags hist =
     callWithRetry (sheet_attempt rm character tone styleTags) default_retries default_delay hist"

section \<open>generateSceneImage\<close>

definition characterContext :: "Character list \<Rightarrow> string" where
  "characterContext chars =
     join '', ''
       (map (\<lambda>c. c_name c @ '' ('' @ c_description c @
                   (if tweakStr (c_tweaks c) \<noteq> [] then '', with '' @ tweakStr (c_tweaks c) else []) @
                   '')'')
            chars)"

definition sliderContext :: "SceneSliders option \<Rightarrow> string" where
  "sliderContext sliders =
     (case sliders of
        None \<Rightarrow> []
      | Some sl \<Rightarrow>
          '' Atmosphere: Tone:'' @ show_int (sl_tone sl) @
          '', Excitement:'' @ show_int (sl_excitement sl) @
          '', Happiness:'' @ show_int (sl_happiness sl) @
          '', Energy:'' @ show_int (sl_energy sl) @
          '', Tension:'' @ show_int (sl_tension sl) @ ''.'')"

definition primaryPrompt :: "Scene \<Rightarrow> bool \<Rightarrow> string" where
  "primaryPrompt scene useStoryText = (if useStoryText then s_storyText scene else s_description scene)"

definition scene_prompt ::
  "Scene \<Rightarrow> Character list \<Rightarrow> string \<Rightarrow> string \<Rightarrow> SceneSliders option \<Rightarrow> bool \<Rightarrow> string" where
  "scene_prompt scene chars tone styleTags sliders useStoryText =
     ''CHILDREN'S BOOK ILLUSTRATION. Scene focus: '' @ primaryPrompt scene useStoryText @
     ''. Characters present: '' @ characterContext chars @
     ''. Style: '' @ tone @ '', '' @ styleTags @ ''.'' @ sliderContext sliders @
     '' Consistent character appearances. 4K quality.''"

definition scene_request ::
  "Scene \<Rightarrow> Character list \<Rightarrow> string \<Rightarrow> string \<Rightarrow> SceneSliders option \<Rightarrow> bool \<Rightarrow> request" where
  "scene_request scene chars tone styleTags sliders useStoryText =
     GenerateImage DEFAULT_MODELS_image
       [TextPart (scene_prompt scene chars tone styleTags sliders useStoryText)] ''16:9''"

definition scene_attempt ::
  "remote \<Rightarrow> Scene \<Rightarrow> Character list \<Rightarrow> string \<Rightarrow> string \<Rightarrow> SceneSliders option \<Rightarrow> bool
     \<Rightarrow> request list \<Rightarrow> (js_error + string) \<times> request list"
where
  "scene_attempt rm scene chars tone styleTags sliders useStoryText hist =
     (case generateContent rm (scene_request scene chars tone styleTags sliders useStoryText) hist of
        (Inl e, hist') \<Rightarrow> (Inl e, hist')
      | (Inr resp, hist') \<Rightarrow> (first_inline_image (response_parts resp), hist'))"

definition generateSceneImage ::
  "remote \<Rightarrow> Scene \<Rightarrow> Character list \<Rightarrow> string \<Rightarrow> string \<Rightarrow> SceneSliders option \<Rightarrow> bool
     \<Rightarrow> request list \<Rightarrow> (js_error + string) \<times> request list \<times> event list"
where
  "generateSceneImage rm scene chars tone styleTags sliders useStoryText hist =
     callWithRetry (scene_attempt rm scene chars tone styleTags sliders useStoryText)
       default_retries default_delay hist"

section \<open>JavaScript values\<close>

text \<open>
  What \<open>JSON.parse\<close> can return.  A number is a finite value (a double is a rational)
  or an infinity (\<open>JSON.parse("1e999")\<close>); an object is the list of its own properties,
  looked up from the left.
\<close>

datatype js_number = Finite rat | PosInfinity | NegInfinity

datatype jsval =
    JNull
  | JBool bool
  | JNum js_number
  | JStr string
  | JArr "jsval list"
  | JObj "(string \<times> jsval) list"

fun truthy :: "jsval \<Rightarrow> bool" where
  "truthy JNull = False"
| "truthy (JBool b) = b"
| "truthy (JNum (Finite q)) = (q \<noteq> 0)"
| "truthy (JNum _) = True"
| "truthy (JStr s) = (s \<noteq> [])"
| "truthy (JArr _) = True"
| "truthy (JObj _) = True"

text \<open>
  The own enumerable properties an object spread \<open>{...v}\<close> copies: those of an object,
  the indexed elements of an array, the indexed characters of a string, none of a
  number, a boolean or \<open>null\<close>.
\<close>

fun own_entries :: "jsval \<Rightarrow> (string \<times> jsval) list" where
  "own_entries (JObj kvs) = kvs"
| "own_entries (JArr xs) = zip (map show_nat [0..<length xs]) xs"
| "own_entries (JStr s) = zip (map show_nat [0..<length s]) (map (\<lambda>c. JStr [c]) s)"
| "own_entries _ = []"

text \<open>A property written in an object literal after a spread: replaced in place or added.\<close>

fun set_prop :: "string \<Rightarrow> jsval \<Rightarrow> (string \<times> jsval) list \<Rightarrow> (string \<times> jsval) list" where
  "set_prop k v [] = [(k, v)]"
| "set_prop k v ((k', v') # kvs) =
     (if k' = k then (k, v) # kvs else (k', v') # set_prop k v kvs)"

text \<open>Reading a property of a value that is an object: \<open>None\<close> is \<open>undefined\<close>.\<close>

definition get_prop :: "jsval \<Rightarrow> string \<Rightarrow> jsval option" where
  "get_prop v k = (case v of JObj kvs \<Rightarrow> map_of kvs k | _ \<Rightarrow> None)"

definition type_error :: "string \<Rightarrow> js_error" where
  "type_error m = \<lparr>message = Some m, status = None, as_string = ''TypeError: '' @ m\<rparr>"

section \<open>analyzeStory\<close>

text \<open>\<open>number | 'auto'\<close>; the tone is a string, \<open>'auto'\<close> among its values.\<close>

datatype scene_count = Auto | Count int

definition countInstruction :: "scene_count \<Rightarrow> string" where
  "countInstruction sceneCount =
     (case sceneCount of
        Auto \<Rightarrow> ''Decide on an appropriate number of sequential book pages (between 5 and 40) based on the story length and emotional arc.''
      | Count n \<Rightarrow> ''Break the story down into exactly '' @ show_int n @ '' sequential book pages.'')"

definition toneInstruction :: "string \<Rightarrow> string" where
  \<open>toneInstruction tone =
     (if tone = ''auto''
      then ''Determine an appropriate artistic tone (e.g., whimsical, noir, watercolor, cinematic) that fits the story's soul.''
      else ''The artistic tone for this book is "'' @ tone @ ''".'')\<close>

definition analysis_prompt :: "string \<Rightarrow> scene_count \<Rightarrow> string \<Rightarrow> string" where
  \<open>analysis_prompt story sceneCount tone =
     ''Analyze this story and prepare it for illustration.\<newline>'' @
     ''      \<newline>'' @
     ''      Instructions:\<newline>'' @
     ''      1. '' @ countInstruction sceneCount @ ''\<newline>'' @
     ''      2. '' @ toneInstruction tone @ ''\<newline>'' @
     ''      3. For each page, provide:\<newline>'' @
     ''         - "storyText": The text to be printed on the page.\<newline>'' @
     ''         - "description": A detailed visual description for an illustrator.\<newline>'' @
     ''      4. Identify all recurring main characters.\<newline>'' @
     ''      \<newline>'' @
     ''      Story: '' @ story @ ''\<newline>'' @
     ''      \<newline>'' @
     ''      Return the data in a structured JSON format.''\<close>

text \<open>\<open>response.text || '{}'\<close>: the text parsed.\<close>

definition body_text :: "response \<Rightarrow> string" where
  "body_text r = (case resp_text r of None \<Rightarrow> ''{}'' | Some t \<Rightarrow> if t \<noteq> [] then t else ''{}'')"

definition empty_tweaks :: jsval where
  "empty_tweaks =
     JObj [(''hair'', JStr []), (''clothing'', JStr []), (''appearance'', JStr []),
           (''personality'', JStr []), (''accessory'', JStr [])]"

text \<open>\<open>{ ...c, tweaks: { hair: "", .. } }\<close>\<close>

definition with_tweaks :: "jsval \<Rightarrow> jsval" where
  "with_tweaks c = JObj (set_prop ''tweaks'' empty_tweaks (own_entries c))"

text \<open>
  The value the attempt returns for the parsed body:
  \<open>{ ...parsed, characters: (parsed.characters || []).map(..) }\<close>.  Reading a property of
  \<open>null\<close> throws, and so does calling \<open>map\<close> on a truthy value that is not an array.
\<close>

definition analysis_result :: "jsval \<Rightarrow> js_error + jsval" where
  "analysis_result parsed =
     (case parsed of
        JNull \<Rightarrow> Inl (type_error ''Cannot read properties of null (reading 'characters')'')
      | _ \<Rightarrow>
          (case get_prop parsed ''characters'' of
             None \<Rightarrow> Inr (JObj (set_prop ''characters'' (JArr []) (own_entries parsed)))
           | Some v \<Rightarrow>
               if truthy v then
                 (case v of
                    JArr cs \<Rightarrow>
                      Inr (JObj (set_prop ''characters'' (JArr (map with_tweaks cs))
                                   (own_entries parsed)))
                  | _ \<Rightarrow> Inl (type_error ''(parsed.characters || []).map is not a function''))
               else Inr (JObj (set_prop ''characters'' (JArr []) (own_entries parsed)))))"

text \<open>
  One attempt: the remote call, then \<open>JSON.parse\<close>, which is a parameter (\<open>parse\<close>): it
  returns a value or throws a \<open>SyntaxError\<close>.  Nothing catches what it throws.
\<close>

definition analyzeStory_attempt ::
  "(string \<Rightarrow> js_error + jsval) \<Rightarrow> remote \<Rightarrow> string \<Rightarrow> scene_count \<Rightarrow> string
     \<Rightarrow> request list \<Rightarrow> (js_error + jsval) \<times> request list"
where
  "analyzeStory_attempt parse rm story sceneCount tone hist =
     (case generateContent rm
             (GenerateText DEFAULT_MODELS_text (analysis_prompt story sceneCount tone)) hist of
        (Inl e, hist') \<Rightarrow> (Inl e, hist')
      | (Inr resp, hist') \<Rightarrow>
          (case parse (body_text resp) of
             Inl e \<Rightarrow> (Inl e, hist')
           | Inr parsed \<Rightarrow> (analysis_result parsed, hist')))"

definition analyzeStory ::
  "(string \<Rightarrow> js_error + jsval) \<Rightarrow> remote \<Rightarrow> string \<Rightarrow> scene_count \<Rightarrow> string
     \<Rightarrow> request list \<Rightarrow> (js_error + jsval) \<times> request list \<times> event list"
where
  "analyzeStory parse rm story sceneCount tone hist =
     callWithRetry (analyzeStory_attempt parse rm story sceneCount tone)
       default_retries default_delay hist"

section \<open>The session\<close>

datatype AppStep = Input | Analysis | Characters | Scenes

datatype AgeGroup = Age_2_4 | Age_5_7 | Age_8_10 | Adult

definition AGE_STYLE_TAGS :: "AgeGroup \<Rightarrow> string" where
  "AGE_STYLE_TAGS g =
     (case g of
        Age_2_4 \<Rightarrow> ''Chunky shapes, bold black outlines, high-contrast, minimalist backgrounds, vibrant primary colors, simple character features.''
      | Age_5_7 \<Rightarrow> ''Watercolor and colored pencil textures, gentle gradients, whimsical atmosphere, soft lighting, medium detail levels.''
      | Age_8_10 \<Rightarrow> ''Cinematic lighting, 3D-render aesthetic, detailed digital painting, depth of field, complex textures, realistic proportions within an illustrative style.''
      | Adult \<Rightarrow> ''Gothic oil painting textures, dramatic chiaroscuro lighting, intricate details, mature color palettes, realistic but highly stylized character designs, moody atmosphere.'')"

record StoryParams =
  p_story :: string
  p_ageGroup :: AgeGroup
  p_tone :: string
  p_sceneCount :: scene_count

record app_state =
  step :: AppStep
  loading :: bool
  errorMessage :: "string option"
  sessionUsage :: nat
  params :: StoryParams
  characters :: "Character list"
  scenes :: "Scene list"
  activeEditingScene :: "Scene option"
  editingSliders :: SceneSliders

definition initial_params :: StoryParams where
  "initial_params = \<lparr>p_story = [], p_ageGroup = Age_5_7, p_tone = ''auto'', p_sceneCount = Auto\<rparr>"

text \<open>
  \<open>handleReset\<close>; \<open>confirm\<close> is the user's answer to \<open>window.confirm\<close>, asked only when
  the step is not \<open>Input\<close>.
\<close>

definition handleReset :: "bool \<Rightarrow> app_state \<Rightarrow> app_state" where
  "handleReset confirm st =
     (if step st \<noteq> Input \<and> \<not> confirm then st
      else st\<lparr>step := Input, characters := [], scenes := [],
              params := initial_params, errorMessage := None\<rparr>)"

definition quota_message :: string where
  "quota_message = ''Architect Quota Exceeded. The Free Tier of the Gemini API allows approximately 15 images per minute. We are retrying automatically with delays, but if this persists, please wait 60 seconds or check your project billing status at ai.google.dev/gemini-api/docs/billing''"

definition handleError :: "js_error \<Rightarrow> app_state \<Rightarrow> app_state" where
  "handleError e st =
     (if str_includes (errorMsg e) ''429'' \<or> str_includes (errorMsg e) ''quota'' \<or>
         str_includes (errorMsg e) ''RESOURCE_EXHAUSTED''
      then st\<lparr>errorMessage := Some quota_message\<rparr>
      else st\<lparr>errorMessage := Some (''An unexpected error occurred: '' @ take 100 (errorMsg e))\<rparr>)"

text \<open>
  The id-keyed updates \<open>setCharacters(prev => prev.map(c => c.id === charId ? .. : c))\<close>
  and \<open>setScenes(prev => prev.map(s => s.id === sceneId ? .. : s))\<close>, applied to the
  state current when they run.
\<close>

definition update_character :: "string \<Rightarrow> (Character \<Rightarrow> Character) \<Rightarrow> app_state \<Rightarrow> app_state" where
  "update_character charId f st =
     st\<lparr>characters := map (\<lambda>c. if c_id c = charId then f c else c) (characters st)\<rparr>"

definition update_scene :: "int \<Rightarrow> (Scene \<Rightarrow> Scene) \<Rightarrow> app_state \<Rightarrow> app_state" where
  "update_scene sceneId f st =
     st\<lparr>scenes := map (\<lambda>s. if s_id s = sceneId then f s else s) (scenes st)\<rparr>"

text \<open>
  \<open>handleGenerateCharacter\<close> up to its \<open>await\<close>: nothing happens when no character has
  the id; otherwise the character found is the one sent, and it is marked generating.
\<close>

definition handleGenerateCharacter_begin :: "string \<Rightarrow> app_state \<Rightarrow> (Character \<times> app_state) option" where
  "handleGenerateCharacter_begin charId st =
     (case find (\<lambda>c. c_id c = charId) (characters st) of
        None \<Rightarrow> None
      | Some char \<Rightarrow>
          Some (char, update_character charId (\<lambda>c. c\<lparr>c_isGenerating := Some True\<rparr>)
                        (st\<lparr>errorMessage := None\<rparr>)))"

text \<open>
  \<open>handleGenerateCharacter\<close> after its \<open>await\<close>, on the state current when the call
  settles: the \<open>try\<close> branch for a sheet, the \<open>catch\<close> branch for an error.
\<close>

definition handleGenerateCharacter_settle :: "string \<Rightarrow> js_error + string \<Rightarrow> app_state \<Rightarrow> app_state" where
  "handleGenerateCharacter_settle charId outcome st =
     (case outcome of
        Inr sheetUrl \<Rightarrow>
          (update_character charId (\<lambda>c. c\<lparr>c_sheetUrl := Some sheetUrl, c_isGenerating := Some False\<rparr>) st)
            \<lparr>sessionUsage := sessionUsage st + 1\<rparr>
      | Inl e \<Rightarrow>
          update_character charId (\<lambda>c. c\<lparr>c_isGenerating := Some False\<rparr>) (handleError e st))"

text \<open>The whole handler when nothing else runs in between.\<close>

definition handleGenerateCharacter ::
  "remote \<Rightarrow> string \<Rightarrow> app_state \<Rightarrow> request list \<Rightarrow> app_state \<times> request list \<times> event list" where
  "handleGenerateCharacter rm charId st hist =
     (case handleGenerateCharacter_begin charId st of
        None \<Rightarrow> (st, hist, [])
      | Some (char, st1) \<Rightarrow>
          (case generateCharacterSheet rm char (p_tone (params st))
                  (AGE_STYLE_TAGS (p_ageGroup (params st))) hist of
             (outcome, hist', evs) \<Rightarrow>
               (handleGenerateCharacter_settle charId outcome st1, hist', evs)))"

text \<open>\<open>if (scene.imageUrl)\<close>: an absent or empty address is falsy.\<close>

definition has_image :: "Scene \<Rightarrow> bool" where
  "has_image scene = (case s_imageUrl scene of None \<Rightarrow> False | Some u \<Rightarrow> u \<noteq> [])"

text \<open>
  The loop of \<open>generateAllScenes\<close> over the scenes it was started with.  It returns how
  the \<open>try\<close> block ended (\<open>Inl\<close>: an error was thrown out of the loop), the state, the
  requests sent and the events, the pause after each generated page among them.  The
  call passes four arguments: no sliders, and \<open>useStoryText\<close> at its default.
\<close>

fun generateAllScenes_loop ::
  "remote \<Rightarrow> Character list \<Rightarrow> string \<Rightarrow> string \<Rightarrow> Scene list \<Rightarrow> app_state \<Rightarrow> request list
     \<Rightarrow> (js_error + unit) \<times> app_state \<times> request list \<times> event list"
where
  "generateAllScenes_loop rm chars tn style [] st hist = (Inr (), st, hist, [])"
| "generateAllScenes_loop rm chars tn style (scene # rest) st hist =
     (if has_image scene then generateAllScenes_loop rm chars tn style rest st hist
      else
        let st1 = update_scene (s_id scene) (\<lambda>s. s\<lparr>s_isGenerating := Some True\<rparr>) st in
        case generateSceneImage rm scene chars tn style None False hist of
          (Inl e, hist', evs) \<Rightarrow> (Inl e, st1, hist', evs)
        | (Inr imageUrl, hist', evs) \<Rightarrow>
            let st2 = (update_scene (s_id scene)
                         (\<lambda>s. s\<lparr>s_imageUrl := Some imageUrl, s_isGenerating := Some False\<rparr>) st1)
                        \<lparr>sessionUsage := sessionUsage st1 + 1\<rparr> in
            case generateAllScenes_loop rm chars tn style rest st2 hist' of
              (r, st3, hist'', evs') \<Rightarrow> (r, st3, hist'', evs @ [Sleep 4500] @ evs'))"

definition generateAllScenes ::
  "remote \<Rightarrow> app_state \<Rightarrow> request list \<Rightarrow> app_state \<times> request list \<times> event list" where
  "generateAllScenes rm st hist =
     (case generateAllScenes_loop rm (characters st) (p_tone (params st))
             (AGE_STYLE_TAGS (p_ageGroup (params st))) (scenes st)
             (st\<lparr>step := Scenes, loading := True, errorMessage := None\<rparr>) hist of
        (Inr _, st1, hist', evs) \<Rightarrow> (st1\<lparr>loading := False\<rparr>, hist', evs)
      | (Inl e, st1, hist', evs) \<Rightarrow> ((handleError e st1)\<lparr>loading := False\<rparr>, hist', evs))"

text \<open>
  \<open>handleRegenerateScene\<close>.  When no scene has the id, \<open>scene\<close> is undefined and
  evaluating the argument \<open>scene.sliders\<close> throws inside the \<open>try\<close> block.
\<close>

definition handleRegenerateScene ::
  "remote \<Rightarrow> int \<Rightarrow> bool \<Rightarrow> app_state \<Rightarrow> request list \<Rightarrow> app_state \<times> request list \<times> event list" where
  "handleRegenerateScene rm sceneId useStoryText st hist =
     (let st0 = update_scene sceneId (\<lambda>s. s\<lparr>s_isGenerating := Some True\<rparr>)
                  (st\<lparr>loading := True, errorMessage := None\<rparr>) in
      case find (\<lambda>s. s_id s = sceneId) (scenes st) of
        None \<Rightarrow>
          ((update_scene sceneId (\<lambda>s. s\<lparr>s_isGenerating := Some False\<rparr>)
              (handleError (type_error ''Cannot read properties of undefined (reading 'sliders')'') st0))
             \<lparr>loading := False\<rparr>, hist, [])
      | Some scene \<Rightarrow>
          (case generateSceneImage rm scene (characters st) (p_tone (params st))
                  (AGE_STYLE_TAGS (p_ageGroup (params st))) (s_sliders scene) useStoryText hist of
             (Inr imageUrl, hist', evs) \<Rightarrow>
               ((update_scene sceneId
                   (\<lambda>s. s\<lparr>s_imageUrl := Some imageUrl, s_isGenerating := Some False\<rparr>) st0)
                  \<lparr>sessionUsage := sessionUsage st0 + 1, loading := False\<rparr>, hist', evs)
           | (Inl e, hist', evs) \<Rightarrow>
               ((update_scene sceneId (\<lambda>s. s\<lparr>s_isGenerating := Some False\<rparr>) (handleError e st0))
                  \<lparr>loading := False\<rparr>, hist', evs)))"

text \<open>
  \<open>handleRegenerateScene\<close> after its \<open>await\<close>, on the state current when the call
  settles: the \<open>try\<close> branch for an image, the \<open>catch\<close> branch for an error, then
  \<open>finally\<close>.
\<close>

definition handleRegenerateScene_settle :: "int \<Rightarrow> js_error + string \<Rightarrow> app_state \<Rightarrow> app_state" where
  "handleRegenerateScene_settle sceneId outcome st =
     (case outcome of
        Inr imageUrl \<Rightarrow>
          (update_scene sceneId
             (\<lambda>s. s\<lparr>s_imageUrl := Some imageUrl, s_isGenerating := Some False\<rparr>) st)
            \<lparr>sessionUsage := sessionUsage st + 1, loading := False\<rparr>
      | Inl e \<Rightarrow>
          (update_scene sceneId (\<lambda>s. s\<lparr>s_isGenerating := Some False\<rparr>) (handleError e st))
            \<lparr>loading := False\<rparr>)"







text \<open>
  \<open>tweakSceneAction\<close>.  The scene sent is \<open>{...scene, description, storyText}\<close>; when no
  scene has the id it has those two properties only, which are all the image operation
  reads (the other fields of the record below stand for absent ones).
\<close>

definition tweakSceneAction ::
  "remote \<Rightarrow> int \<Rightarrow> string \<Rightarrow> string \<Rightarrow> bool \<Rightarrow> app_state \<Rightarrow> request list
     \<Rightarrow> app_state \<times> request list \<times> event list" where
  "tweakSceneAction rm sceneId newDescription newStoryText useStoryText st hist =
     (let st0 = (update_scene sceneId
                   (\<lambda>s. s\<lparr>s_description := newDescription, s_storyText := newStoryText,
                           s_sliders := Some (editingSliders st), s_isGenerating := Some True\<rparr>)
                   (st\<lparr>loading := True, errorMessage := None\<rparr>))\<lparr>activeEditingScene := None\<rparr>;
          sent = (case find (\<lambda>s. s_id s = sceneId) (scenes st) of
                    Some scene \<Rightarrow> scene\<lparr>s_description := newDescription, s_storyText := newStoryText\<rparr>
                  | None \<Rightarrow> \<lparr>s_id = 0, s_description = newDescription, s_storyText = newStoryText,
                             s_imageUrl = None, s_isGenerating = None, s_sliders = None\<rparr>) in
      case generateSceneImage rm sent (characters st) (p_tone (params st))
             (AGE_STYLE_TAGS (p_ageGroup (params st))) (Some (editingSliders st)) useStoryText hist of
        (Inr imageUrl, hist', evs) \<Rightarrow>
          ((update_scene sceneId
              (\<lambda>s. s\<lparr>s_imageUrl := Some imageUrl, s_isGenerating := Some False\<rparr>) st0)
             \<lparr>sessionUsage := sessionUsage st0 + 1, loading := False\<rparr>, hist', evs)
      | (Inl e, hist', evs) \<Rightarrow>
          ((update_scene sceneId (\<lambda>s. s\<lparr>s_isGenerating := Some False\<rparr>) (handleError e st0))
             \<lparr>loading := False\<rparr>, hist', evs))"

section \<open>Sample operations and errors\<close>

text \<open>Two thrown values: one the wrapper gives up on at once, one it retries.\<close>

definition invalid_key :: js_error where
  "invalid_key =
     \<lparr>message = Some ''API key not valid'', status = Some 400,
      as_string = ''Error: API key not valid''\<rparr>"

definition rate_limited :: js_error where
  "rate_limited =
     \<lparr>message = Some ''429 Too Many Requests'', status = Some 429,
      as_string = ''Error: 429 Too Many Requests''\<rparr>"

text \<open>An operation that counts its calls and rejects each with the same error.\<close>

definition rejecting :: "js_error \<Rightarrow> nat \<Rightarrow> (js_error + unit) \<times> nat" where
  "rejecting e k = (Inl e, Suc k)"

section \<open>Sample responses, characters and scenes\<close>

definition caption_part :: part where
  "caption_part = \<lparr>part_text = Some ''Here is the illustration.'', part_inlineData = None\<rparr>"

definition png_part :: part where
  "png_part =
     \<lparr>part_text = None,
      part_inlineData = Some \<lparr>blob_mimeType = Some ''image/png'', blob_data = Some ''QUJD''\<rparr>\<rparr>"

definition image_response :: response where
  "image_response =
     \<lparr>resp_text = None,
      resp_candidates =
        Some [\<lparr>cand_content = Some \<lparr>content_parts = Some [caption_part, png_part]\<rparr>\<rparr>]\<rparr>"

definition caption_response :: response where
  "caption_response =
     \<lparr>resp_text = Some ''Here is the illustration.'',
      resp_candidates = Some [\<lparr>cand_content = Some \<lparr>content_parts = Some [caption_part]\<rparr>\<rparr>]\<rparr>"

text \<open>Remote models that give the same answer to every call.\<close>

definition answering :: "response \<Rightarrow> remote" where
  "answering resp = (\<lambda>k req. Inr resp)"

definition fox :: Character where
  "fox =
     \<lparr>c_id = ''c1'', c_name = ''Fox'', c_description = ''a small red fox'',
      c_sheetUrl = None, c_uploadUrl = None, c_isGenerating = None,
      c_tweaks = \<lparr>hair = [], clothing = ''blue scarf'', appearance = [],
                  personality = [], accessory = []\<rparr>\<rparr>"

definition calm :: SceneSliders where
  "calm = \<lparr>sl_tone = 5, sl_excitement = 2, sl_happiness = 7, sl_energy = 3, sl_tension = 1\<rparr>"

definition scene_A :: Scene where
  "scene_A =
     \<lparr>s_id = 1, s_description = ''A fox at the edge of a forest'', s_storyText = ''Once there was a fox.'',
      s_imageUrl = None, s_isGenerating = None, s_sliders = Some calm\<rparr>"

definition scene_B :: Scene where
  "scene_B =
     \<lparr>s_id = 2, s_description = ''The fox crosses a river'', s_storyText = ''The fox crossed the river.'',
      s_imageUrl = None, s_isGenerating = None, s_sliders = Some calm\<rparr>"

definition scene_C :: Scene where
  "scene_C =
     \<lparr>s_id = 3, s_description = ''The fox sleeps under the stars'', s_storyText = ''Then the fox slept.'',
      s_imageUrl = None, s_isGenerating = None, s_sliders = Some calm\<rparr>"

text \<open>The fox with an uploaded reference: a web address, and an embedded PNG.\<close>

definition fox_with_link :: Character where
  "fox_with_link = fox\<lparr>c_uploadUrl := Some ''https://example.com/fox.png''\<rparr>"

definition fox_with_photo :: Character where
  "fox_with_photo = fox\<lparr>c_uploadUrl := Some ''data:image/png;base64,QUJD''\<rparr>"

text \<open>A session in the Characters step: the fox and three pages without images.\<close>

definition book :: app_state where
  "book =
     \<lparr>step = Characters, loading = False, errorMessage = None, sessionUsage = 0,
      params = \<lparr>p_story = ''Once there was a fox.'', p_ageGroup = Age_5_7,
                p_tone = ''whimsical'', p_sceneCount = Count 3\<rparr>,
      characters = [fox], scenes = [scene_A, scene_B, scene_C],
      activeEditingScene = None, editingSliders = calm\<rparr>"

section \<open>Sample bodies of the text model\<close>

text \<open>
  A well-formed answer, in which the model chose the tone "whimsical" and seven
  pages, and the value \<open>JSON.parse\<close> returns for it.
\<close>

definition fox_story_body :: string where
  \<open>fox_story_body = ''{"scenes":[{"id":1,"storyText":"Once there was a fox.","description":"A fox at the edge of a forest"}],"characters":[{"id":"c1","name":"Fox","description":"a small red fox"}],"determinedTone":"whimsical","determinedCount":7}''\<close>

definition fox_story_value :: jsval where
  "fox_story_value =
     JObj [(''scenes'',
            JArr [JObj [(''id'', JNum (Finite 1)),
                        (''storyText'', JStr ''Once there was a fox.''),
                        (''description'', JStr ''A fox at the edge of a forest'')]]),
           (''characters'',
            JArr [JObj [(''id'', JStr ''c1''), (''name'', JStr ''Fox''),
                        (''description'', JStr ''a small red fox'')]]),
           (''determinedTone'', JStr ''whimsical''),
           (''determinedCount'', JNum (Finite 7))]"

text \<open>What \<open>JSON.parse("<html>")\<close> throws (the message as V8 words it).\<close>

definition html_syntax_error :: js_error where
  \<open>html_syntax_error =
     \<lparr>message = Some ''Unexpected token '<', "<html>" is not valid JSON'', status = None,
      as_string = ''SyntaxError: Unexpected token '<', "<html>" is not valid JSON''\<rparr>\<close>

text \<open>
  \<open>JSON.parse\<close> on the three texts the sample runs pass to it: \<open>{}\<close>, the answer above
  and \<open><html>\<close>.  (No other text is passed; the last branch stands for \<open><html>\<close>.)
\<close>

definition JSON_parse_samples :: "string \<Rightarrow> js_error + jsval" where
  "JSON_parse_samples s =
     (if s = ''{}'' then Inr (JObj [])
      else if s = fox_story_body then Inr fox_story_value
      else Inl html_syntax_error)"

definition fox_story_response :: response where
  "fox_story_response = \<lparr>resp_text = Some fox_story_body, resp_candidates = None\<rparr>"

definition html_response :: response where
  "html_response = \<lparr>resp_text = Some ''<html>'', resp_candidates = None\<rparr>"

definition silent_response :: response where
  "silent_response = \<lparr>resp_text = None, resp_candidates = None\<rparr>"




text \<open>A remote model whose second answer is an error the wrapper does not retry.\<close>

definition failing_second :: remote where
  "failing_second = (\<lambda>k req. if k = 1 then Inl invalid_key else Inr image_response)"

section \<open>Properties of the retry wrapper\<close>

lemma str_includes_iff: "str_includes s pat \<longleftrightarrow> (\<exists>ps ss. s = ps @ pat @ ss)"
proof (induction s)
  case Nil
  then show ?case by auto
next
  case (Cons c cs)
  show ?case
  proof
    assume "str_includes (c # cs) pat"
    then consider "prefix pat (c # cs)" | "str_includes cs pat" by auto
    then show "\<exists>ps ss. c # cs = ps @ pat @ ss"
    proof cases
      case 1
      then obtain ss where "c # cs = pat @ ss" by (auto simp: prefix_def)
      then have "c # cs = [] @ pat @ ss" by simp
      then show ?thesis by blast
    next
      case 2
      with Cons obtain ps ss where "cs = ps @ pat @ ss" by blast
      then have "c # cs = (c # ps) @ pat @ ss" by simp
      then show ?thesis by blast
    qed
  next
    assume "\<exists>ps ss. c # cs = ps @ pat @ ss"
    then obtain ps ss where eq: "c # cs = ps @ pat @ ss" by blast
    show "str_includes (c # cs) pat"
    proof (cases ps)
      case Nil
      with eq have "prefix pat (c # cs)" by (simp add: prefix_def)
      then show ?thesis by simp
    next
      case (Cons p ps')
      with eq have "cs = ps' @ pat @ ss" by simp
      with Cons.IH have "str_includes cs pat" by blast
      then show ?thesis by simp
    qed
  qed
qed

lemma doubling_0: "doubling D 0 = []"
  by (simp add: doubling_def)

lemma doubling_Suc: "doubling D (Suc n) = D # doubling (D * 2) n"
proof -
  have "[0..<Suc n] = 0 # map Suc [0..<n]"
    by (simp add: upt_conv_Cons map_Suc_upt del: upt_Suc)
  then show ?thesis
    by (simp add: doubling_def comp_def mult.assoc del: upt_Suc)
qed

lemma world_before_Suc: "world_before fn (Suc k) w = world_before fn k (snd (fn w))"
  by (simp add: world_before_def funpow_Suc_right del: funpow.simps)

text \<open>One unfolding of the wrapper when the attempt is rejected and retried.\<close>

lemma callWithRetry_retry:
  assumes "fn w = (Inl e, w')" "retries > 0" "isRetryable e"
  shows "callWithRetry fn retries delay w =
     (case callWithRetry fn (retries - 1) (delay * 2) w' of
        (r, w'', evs) \<Rightarrow> (r, w'', [Attempt, Warn delay retries, Sleep delay] @ evs))"
  using assms by (subst callWithRetry.simps) simp

lemma callWithRetry_give_up:
  assumes "fn w = (Inl e, w')" "\<not> (retries > 0 \<and> isRetryable e)"
  shows "callWithRetry fn retries delay w = (Inl e, w', [Attempt])"
  using assms by (subst callWithRetry.simps) auto

lemma callWithRetry_resolve:
  assumes "fn w = (Inr v, w')"
  shows "callWithRetry fn retries delay w = (Inr v, w', [Attempt])"
  using assms by (subst callWithRetry.simps) simp

lemma callWithRetry_legacy_retry:
  assumes "fn w = (Inl e, w')" "retries > 0" "isRetryable_legacy e"
  shows "callWithRetry_legacy fn retries delay w =
     (case callWithRetry_legacy fn (retries - 1) (delay * 2) w' of
        (r, w'', evs) \<Rightarrow> (r, w'', [Attempt, Warn delay retries, Sleep delay] @ evs))"
  using assms by (subst callWithRetry_legacy.simps) simp

lemma callWithRetry_legacy_give_up:
  assumes "fn w = (Inl e, w')" "\<not> (retries > 0 \<and> isRetryable_legacy e)"
  shows "callWithRetry_legacy fn retries delay w = (Inl e, w', [Attempt])"
  using assms by (subst callWithRetry_legacy.simps) auto

lemma callWithRetry_legacy_resolve:
  assumes "fn w = (Inr v, w')"
  shows "callWithRetry_legacy fn retries delay w = (Inr v, w', [Attempt])"
  using assms by (subst callWithRetry_legacy.simps) simp

text \<open>
  An operation that always rejects with a retryable error, run with \<open>n\<close> retries: the
  outcome is that of attempt number \<open>n\<close>, after \<open>n + 1\<close> attempts and the \<open>n\<close> doubling
  waits.
\<close>

lemma callWithRetry_exhaust:
  assumes "always_retryable fn"
  shows "fst (callWithRetry fn (int n) D w) = fst (fn (world_before fn n w)) \<and>
         attempts (snd (snd (callWithRetry fn (int n) D w))) = Suc n \<and>
         waits (snd (snd (callWithRetry fn (int n) D w))) = doubling D n"
proof (induction n arbitrary: D w)
  case 0
  from assms obtain e where "fst (fn w) = Inl e"
    unfolding always_retryable_def by blast
  then have "fn w = (Inl e, snd (fn w))" by (metis prod.collapse)
  then have "callWithRetry fn 0 D w = (Inl e, snd (fn w), [Attempt])"
    by (rule callWithRetry_give_up) simp
  with \<open>fst (fn w) = Inl e\<close> show ?case
    by (simp add: world_before_def doubling_0)
next
  case (Suc n)
  from assms obtain e where e: "fst (fn w) = Inl e" "isRetryable e"
    unfolding always_retryable_def by blast
  then have fw: "fn w = (Inl e, snd (fn w))" by (metis prod.collapse)
  have "callWithRetry fn (int (Suc n)) D w =
     (case callWithRetry fn (int (Suc n) - 1) (D * 2) (snd (fn w)) of
        (r, w'', evs) \<Rightarrow> (r, w'', [Attempt, Warn D (int (Suc n)), Sleep D] @ evs))"
  proof (rule callWithRetry_retry)
    show "fn w = (Inl e, snd (fn w))" by (rule fw)
    show "0 < int (Suc n)" by simp
    show "isRetryable e" by (rule e(2))
  qed
  then have step: "callWithRetry fn (int (Suc n)) D w =
     (case callWithRetry fn (int n) (D * 2) (snd (fn w)) of
        (r, w'', evs) \<Rightarrow> (r, w'', [Attempt, Warn D (int (Suc n)), Sleep D] @ evs))"
    by simp
  obtain r w'' evs where rest: "callWithRetry fn (int n) (D * 2) (snd (fn w)) = (r, w'', evs)"
    by (cases "callWithRetry fn (int n) (D * 2) (snd (fn w))") auto
  from Suc.IH [of "D * 2" "snd (fn w)"] rest
  have ih: "r = fst (fn (world_before fn n (snd (fn w))))"
           "attempts evs = Suc n" "waits evs = doubling (D * 2) n"
    by simp_all
  from step rest ih show ?case
    by (simp add: world_before_Suc doubling_Suc)
qed

lemma callWithRetry_legacy_exhaust:
  assumes "always_retryable_legacy fn"
  shows "fst (callWithRetry_legacy fn (int n) D w) = fst (fn (world_before fn n w)) \<and>
         attempts (snd (snd (callWithRetry_legacy fn (int n) D w))) = Suc n \<and>
         waits (snd (snd (callWithRetry_legacy fn (int n) D w))) = doubling D n"
proof (induction n arbitrary: D w)
  case 0
  from assms obtain e where "fst (fn w) = Inl e"
    unfolding always_retryable_legacy_def by blast
  then have "fn w = (Inl e, snd (fn w))" by (metis prod.collapse)
  then have "callWithRetry_legacy fn 0 D w = (Inl e, snd (fn w), [Attempt])"
    by (rule callWithRetry_legacy_give_up) simp
  with \<open>fst (fn w) = Inl e\<close> show ?case
    by (simp add: world_before_def doubling_0)
next
  case (Suc n)
  from assms obtain e where e: "fst (fn w) = Inl e" "isRetryable_legacy e"
    unfolding always_retryable_legacy_def by blast
  then have fw: "fn w = (Inl e, snd (fn w))" by (metis prod.collapse)
  have "callWithRetry_legacy fn (int (Suc n)) D w =
     (case callWithRetry_legacy fn (int (Suc n) - 1) (D * 2) (snd (fn w)) of
        (r, w'', evs) \<Rightarrow> (r, w'', [Attempt, Warn D (int (Suc n)), Sleep D] @ evs))"
  proof (rule callWithRetry_legacy_retry)
    show "fn w = (Inl e, snd (fn w))" by (rule fw)
    show "0 < int (Suc n)" by simp
    show "isRetryable_legacy e" by (rule e(2))
  qed
  then have step: "callWithRetry_legacy fn (int (Suc n)) D w =
     (case callWithRetry_legacy fn (int n) (D * 2) (snd (fn w)) of
        (r, w'', evs) \<Rightarrow> (r, w'', [Attempt, Warn D (int (Suc n)), Sleep D] @ evs))"
    by simp
  obtain r w'' evs where rest:
    "callWithRetry_legacy fn (int n) (D * 2) (snd (fn w)) = (r, w'', evs)"
    by (cases "callWithRetry_legacy fn (int n) (D * 2) (snd (fn w))") auto
  from Suc.IH [of "D * 2" "snd (fn w)"] rest
  have ih: "r = fst (fn (world_before fn n (snd (fn w))))"
           "attempts evs = Suc n" "waits evs = doubling (D * 2) n"
    by simp_all
  from step rest ih show ?case
    by (simp add: world_before_Suc doubling_Suc)
qed

lemma callWithRetry_unfold:
  "callWithRetry fn retries delay w =
     (if isl (fst (fn w)) \<and> retries > 0 \<and> isRetryable (projl (fst (fn w)))
      then (fst (callWithRetry fn (retries - 1) (delay * 2) (snd (fn w))),
            fst (snd (callWithRetry fn (retries - 1) (delay * 2) (snd (fn w)))),
            [Attempt, Warn delay retries, Sleep delay] @
              snd (snd (callWithRetry fn (retries - 1) (delay * 2) (snd (fn w)))))
      else (fst (fn w), snd (fn w), [Attempt]))"
  by (subst callWithRetry.simps) (auto split: prod.splits sum.splits)

text \<open>
  When every attempt appends the same request to the history, a run of the wrapper
  appends that request once or more, and nothing else.
\<close>

lemma callWithRetry_stop:
  assumes "\<not> (isl (fst (fn w)) \<and> retries > 0 \<and> isRetryable (projl (fst (fn w))))"
  shows "callWithRetry fn retries delay w = (fst (fn w), snd (fn w), [Attempt])"
  using assms by (subst callWithRetry_unfold) (rule if_not_P)

lemma callWithRetry_again:
  assumes "isl (fst (fn w)) \<and> retries > 0 \<and> isRetryable (projl (fst (fn w)))"
  shows "fst (snd (callWithRetry fn retries delay w)) =
           fst (snd (callWithRetry fn (retries - 1) (delay * 2) (snd (fn w))))"
  using assms by (subst callWithRetry_unfold) simp

lemma callWithRetry_requests:
  assumes "\<And>h. snd (fn h) = h @ [req]"
  shows "\<exists>n. fst (snd (callWithRetry fn retries delay hist)) = hist @ replicate (Suc n) req"
  using assms
proof (induction fn retries delay hist rule: callWithRetry.induct)
  case (1 fn retries delay w)
  show ?case
  proof (cases "isl (fst (fn w)) \<and> retries > 0 \<and> isRetryable (projl (fst (fn w)))")
    case True
    then obtain e where e: "fn w = (Inl e, snd (fn w))" "isRetryable e"
      by (cases "fn w"; cases "fst (fn w)") auto
    from True have pos: "0 < retries \<and> isRetryable e"
      using e by (metis fst_conv sum.sel(1))
    from "1.IH" [OF e(1) [symmetric] refl pos "1.prems"]
    obtain n where
      "fst (snd (callWithRetry fn (retries - 1) (delay * 2) (snd (fn w)))) =
         snd (fn w) @ replicate (Suc n) req"
      by blast
    with callWithRetry_again [of fn w retries delay] True "1.prems" [of w]
    have "fst (snd (callWithRetry fn retries delay w)) = w @ replicate (Suc (Suc n)) req"
      by simp
    then show ?thesis by blast
  next
    case False
    from callWithRetry_stop [of fn w retries delay] False "1.prems" [of w]
    have "fst (snd (callWithRetry fn retries delay w)) = w @ replicate (Suc 0) req"
      by simp
    then show ?thesis by blast
  qed
qed

text \<open>
  Claim C6.  An operation whose attempt rejects with an error the wrapper does not
  classify as retryable is attempted exactly once, whatever the retry count and the
  delay are, no wait is made, and the wrapper rejects with that same error.
\<close>

theorem callWithRetry_terminal_once:
  assumes "fn w = (Inl e, w')" and "\<not> isRetryable e"
  shows "callWithRetry fn retries delay w = (Inl e, w', [Attempt]) \<and>
         attempts (snd (snd (callWithRetry fn retries delay w))) = 1 \<and>
         waits (snd (snd (callWithRetry fn retries delay w))) = []"
proof -
  from assms have "callWithRetry fn retries delay w = (Inl e, w', [Attempt])"
    by (intro callWithRetry_give_up) simp_all
  then show ?thesis by simp
qed

lemma invalid_key_terminal: "\<not> isRetryable invalid_key"
  by (simp add: isRetryable_def errorMsg_def invalid_key_def)

lemma rate_limited_retryable: "isRetryable rate_limited" "isRetryable_legacy rate_limited"
  by (simp_all add: isRetryable_def isRetryable_legacy_def errorMsg_def rate_limited_def)

theorem callWithRetry_terminal_once_witness:
  "rejecting invalid_key 0 = (Inl invalid_key, 1) \<and> \<not> isRetryable invalid_key \<and>
   callWithRetry (rejecting invalid_key) 4 5000 0 = (Inl invalid_key, 1, [Attempt]) \<and>
   attempts (snd (snd (callWithRetry (rejecting invalid_key) 4 5000 0))) = 1"
  using callWithRetry_terminal_once [of "rejecting invalid_key" 0 invalid_key 1 4 5000]
    invalid_key_terminal
  by (simp add: rejecting_def)

text \<open>
  Claim C2.  With \<open>R\<close> retries and base delay \<open>D\<close>, an operation that rejects every
  attempt with a retryable error is attempted exactly \<open>R + 1\<close> times, the waits between
  the attempts are \<open>D, 2D, 4D, .., 2^(R-1) D\<close> in this order, and the wrapper rejects with
  the error of the last attempt.  This holds for the wrapper and for its earlier variant,
  each with its own classification of errors.
\<close>

theorem callWithRetry_retryable_exhausts:
  assumes "0 \<le> R"
  shows "(always_retryable fn \<longrightarrow>
            fst (callWithRetry fn R D w) = fst (fn (world_before fn (nat R) w)) \<and>
            (\<exists>e. fst (callWithRetry fn R D w) = Inl e \<and> isRetryable e) \<and>
            attempts (snd (snd (callWithRetry fn R D w))) = nat R + 1 \<and>
            waits (snd (snd (callWithRetry fn R D w))) = map (\<lambda>k. D * 2 ^ k) [0..<nat R]) \<and>
         (always_retryable_legacy fn \<longrightarrow>
            fst (callWithRetry_legacy fn R D w) = fst (fn (world_before fn (nat R) w)) \<and>
            (\<exists>e. fst (callWithRetry_legacy fn R D w) = Inl e \<and> isRetryable_legacy e) \<and>
            attempts (snd (snd (callWithRetry_legacy fn R D w))) = nat R + 1 \<and>
            waits (snd (snd (callWithRetry_legacy fn R D w))) = map (\<lambda>k. D * 2 ^ k) [0..<nat R])"
proof -
  from assms have R: "R = int (nat R)" by simp
  have new: "fst (callWithRetry fn R D w) = fst (fn (world_before fn (nat R) w)) \<and>
            (\<exists>e. fst (callWithRetry fn R D w) = Inl e \<and> isRetryable e) \<and>
            attempts (snd (snd (callWithRetry fn R D w))) = nat R + 1 \<and>
            waits (snd (snd (callWithRetry fn R D w))) = map (\<lambda>k. D * 2 ^ k) [0..<nat R]"
    if a: "always_retryable fn"
  proof -
    from callWithRetry_exhaust [OF a, of "nat R" D w] R
    have *: "fst (callWithRetry fn R D w) = fst (fn (world_before fn (nat R) w))"
      "attempts (snd (snd (callWithRetry fn R D w))) = Suc (nat R)"
      "waits (snd (snd (callWithRetry fn R D w))) = doubling D (nat R)"
      by simp_all
    from a obtain e where "fst (fn (world_before fn (nat R) w)) = Inl e" "isRetryable e"
      unfolding always_retryable_def by blast
    with * show ?thesis by (simp add: doubling_def)
  qed
  have old: "fst (callWithRetry_legacy fn R D w) = fst (fn (world_before fn (nat R) w)) \<and>
            (\<exists>e. fst (callWithRetry_legacy fn R D w) = Inl e \<and> isRetryable_legacy e) \<and>
            attempts (snd (snd (callWithRetry_legacy fn R D w))) = nat R + 1 \<and>
            waits (snd (snd (callWithRetry_legacy fn R D w))) = map (\<lambda>k. D * 2 ^ k) [0..<nat R]"
    if a: "always_retryable_legacy fn"
  proof -
    from callWithRetry_legacy_exhaust [OF a, of "nat R" D w] R
    have *: "fst (callWithRetry_legacy fn R D w) = fst (fn (world_before fn (nat R) w))"
      "attempts (snd (snd (callWithRetry_legacy fn R D w))) = Suc (nat R)"
      "waits (snd (snd (callWithRetry_legacy fn R D w))) = doubling D (nat R)"
      by simp_all
    from a obtain e where "fst (fn (world_before fn (nat R) w)) = Inl e" "isRetryable_legacy e"
      unfolding always_retryable_legacy_def by blast
    with * show ?thesis by (simp add: doubling_def)
  qed
  from new old show ?thesis by blast
qed

lemma rejecting_always:
  "always_retryable (rejecting rate_limited)" "always_retryable_legacy (rejecting rate_limited)"
  by (simp_all add: always_retryable_def always_retryable_legacy_def rejecting_def
      rate_limited_retryable)

theorem callWithRetry_retryable_exhausts_witness:
  "(0::int) \<le> 3 \<and> always_retryable (rejecting rate_limited) \<and>
   always_retryable_legacy (rejecting rate_limited) \<and>
   fst (callWithRetry (rejecting rate_limited) 3 2000 0) = Inl rate_limited \<and>
   attempts (snd (snd (callWithRetry (rejecting rate_limited) 3 2000 0))) = 4 \<and>
   waits (snd (snd (callWithRetry (rejecting rate_limited) 3 2000 0))) = [2000, 4000, 8000] \<and>
   fst (callWithRetry_legacy (rejecting rate_limited) 3 2000 0) = Inl rate_limited \<and>
   attempts (snd (snd (callWithRetry_legacy (rejecting rate_limited) 3 2000 0))) = 4 \<and>
   waits (snd (snd (callWithRetry_legacy (rejecting rate_limited) 3 2000 0))) = [2000, 4000, 8000]"
  using callWithRetry_retryable_exhausts [of 3 "rejecting rate_limited" 2000 0]
    rejecting_always
  by (simp add: rejecting_def upt_conv_Cons)

section \<open>Properties of the image operations\<close>

lemma response_parts_first:
  assumes "resp_candidates resp = Some (cand # others)" "cand_content cand = Some ct"
    "content_parts ct = Some ps"
  shows "response_parts resp = ps"
  using assms by (simp add: response_parts_def)

lemma first_inline_image_found:
  assumes "\<forall>q\<in>set pre. part_inlineData q = None" "part_inlineData p = Some b"
    "blob_data b = Some P"
  shows "first_inline_image (pre @ p # post) = Inr (''data:image/png;base64,'' @ P)"
  using assms by (induction pre) simp_all

lemma first_inline_image_none:
  assumes "\<forall>q\<in>set ps. part_inlineData q = None"
  shows "first_inline_image ps = Inl no_image_error"
  using assms by (induction ps) simp_all

lemma no_image_error_terminal: "\<not> isRetryable no_image_error"
  by (simp add: isRetryable_def errorMsg_def no_image_error_def)

lemma sheet_attempt_answer:
  "sheet_attempt rm character tn styleTags hist =
     ((case rm (length hist) (sheet_request character tn styleTags) of
         Inl e \<Rightarrow> Inl e
       | Inr resp \<Rightarrow> first_inline_image (response_parts resp)),
      hist @ [sheet_request character tn styleTags])"
  by (simp add: sheet_attempt_def generateContent_def split: sum.splits)

lemma scene_attempt_answer:
  "scene_attempt rm scene chars tn styleTags sliders useStoryText hist =
     ((case rm (length hist) (scene_request scene chars tn styleTags sliders useStoryText) of
         Inl e \<Rightarrow> Inl e
       | Inr resp \<Rightarrow> first_inline_image (response_parts resp)),
      hist @ [scene_request scene chars tn styleTags sliders useStoryText])"
  by (simp add: scene_attempt_def generateContent_def split: sum.splits)

lemma image_response_url:
  "first_inline_image (response_parts image_response) = Inr ''data:image/png;base64,QUJD''"
  by (simp add: response_parts_def image_response_def caption_part_def png_part_def)

text \<open>
  Claim C5.  For both image operations: when the answer's first candidate has parts
  of which the first one with inline data carries the payload \<open>P\<close>, the operation
  returns \<open>data:image/png;base64,\<close> followed by \<open>P\<close>; when no part of the answer has
  inline data, it rejects with the error "No image data returned from API" after a
  single attempt, since the wrapper does not retry that error.
\<close>

theorem image_operations_result:
  "(resp_candidates resp = Some (cand # others) \<and> cand_content cand = Some ct \<and>
    content_parts ct = Some (pre @ p # post) \<and> (\<forall>q\<in>set pre. part_inlineData q = None) \<and>
    part_inlineData p = Some b \<and> blob_data b = Some P \<longrightarrow>
      (rm (length hist) (sheet_request character tone styleTags) = Inr resp \<longrightarrow>
         fst (generateCharacterSheet rm character tone styleTags hist) =
           Inr (''data:image/png;base64,'' @ P)) \<and>
      (rm (length hist) (scene_request scene chars tone styleTags sliders useStoryText) = Inr resp \<longrightarrow>
         fst (generateSceneImage rm scene chars tone styleTags sliders useStoryText hist) =
           Inr (''data:image/png;base64,'' @ P))) \<and>
   ((\<forall>q\<in>set (response_parts resp). part_inlineData q = None) \<longrightarrow>
      (rm (length hist) (sheet_request character tone styleTags) = Inr resp \<longrightarrow>
         generateCharacterSheet rm character tone styleTags hist =
           (Inl no_image_error, hist @ [sheet_request character tone styleTags], [Attempt])) \<and>
      (rm (length hist) (scene_request scene chars tone styleTags sliders useStoryText) = Inr resp \<longrightarrow>
         generateSceneImage rm scene chars tone styleTags sliders useStoryText hist =
           (Inl no_image_error,
            hist @ [scene_request scene chars tone styleTags sliders useStoryText], [Attempt]))) \<and>
   message no_image_error = Some ''No image data returned from API''"
proof (intro conjI impI)
  assume h: "resp_candidates resp = Some (cand # others) \<and> cand_content cand = Some ct \<and>
    content_parts ct = Some (pre @ p # post) \<and> (\<forall>q\<in>set pre. part_inlineData q = None) \<and>
    part_inlineData p = Some b \<and> blob_data b = Some P"
  then have img: "first_inline_image (response_parts resp) = Inr (''data:image/png;base64,'' @ P)"
    using response_parts_first [of resp cand others ct "pre @ p # post"]
      first_inline_image_found [of pre p b P post] by simp
  {
    assume r: "rm (length hist) (sheet_request character tone styleTags) = Inr resp"
    have "sheet_attempt rm character tone styleTags hist =
            (Inr (''data:image/png;base64,'' @ P), hist @ [sheet_request character tone styleTags])"
      by (simp add: sheet_attempt_answer r img)
    then have "callWithRetry (sheet_attempt rm character tone styleTags) default_retries
                 default_delay hist =
            (Inr (''data:image/png;base64,'' @ P),
             hist @ [sheet_request character tone styleTags], [Attempt])"
      by (rule callWithRetry_resolve)
    then show "fst (generateCharacterSheet rm character tone styleTags hist) =
            Inr (''data:image/png;base64,'' @ P)"
      by (simp add: generateCharacterSheet_def)
  }
  {
    assume r: "rm (length hist) (scene_request scene chars tone styleTags sliders useStoryText) = Inr resp"
    have "scene_attempt rm scene chars tone styleTags sliders useStoryText hist =
            (Inr (''data:image/png;base64,'' @ P),
             hist @ [scene_request scene chars tone styleTags sliders useStoryText])"
      by (simp add: scene_attempt_answer r img)
    then have "callWithRetry (scene_attempt rm scene chars tone styleTags sliders useStoryText)
                 default_retries default_delay hist =
            (Inr (''data:image/png;base64,'' @ P),
             hist @ [scene_request scene chars tone styleTags sliders useStoryText], [Attempt])"
      by (rule callWithRetry_resolve)
    then show "fst (generateSceneImage rm scene chars tone styleTags sliders useStoryText hist) =
            Inr (''data:image/png;base64,'' @ P)"
      by (simp add: generateSceneImage_def)
  }
next
  assume h: "\<forall>q\<in>set (response_parts resp). part_inlineData q = None"
  then have none: "first_inline_image (response_parts resp) = Inl no_image_error"
    by (rule first_inline_image_none)
  {
    assume r: "rm (length hist) (sheet_request character tone styleTags) = Inr resp"
    have "sheet_attempt rm character tone styleTags hist =
            (Inl no_image_error, hist @ [sheet_request character tone styleTags])"
      by (simp add: sheet_attempt_answer r none)
    then have "callWithRetry (sheet_attempt rm character tone styleTags) default_retries
                 default_delay hist =
            (Inl no_image_error, hist @ [sheet_request character tone styleTags], [Attempt])"
      by (rule callWithRetry_give_up) (simp add: no_image_error_terminal)
    then show "generateCharacterSheet rm character tone styleTags hist =
           (Inl no_image_error, hist @ [sheet_request character tone styleTags], [Attempt])"
      by (simp add: generateCharacterSheet_def)
  }
  {
    assume r: "rm (length hist) (scene_request scene chars tone styleTags sliders useStoryText) = Inr resp"
    have "scene_attempt rm scene chars tone styleTags sliders useStoryText hist =
            (Inl no_image_error,
             hist @ [scene_request scene chars tone styleTags sliders useStoryText])"
      by (simp add: scene_attempt_answer r none)
    then have "callWithRetry (scene_attempt rm scene chars tone styleTags sliders useStoryText)
                 default_retries default_delay hist =
            (Inl no_image_error,
             hist @ [scene_request scene chars tone styleTags sliders useStoryText], [Attempt])"
      by (rule callWithRetry_give_up) (simp add: no_image_error_terminal)
    then show "generateSceneImage rm scene chars tone styleTags sliders useStoryText hist =
           (Inl no_image_error,
            hist @ [scene_request scene chars tone styleTags sliders useStoryText], [Attempt])"
      by (simp add: generateSceneImage_def)
  }
next
  show "message no_image_error = Some ''No image data returned from API''"
    by (simp add: no_image_error_def)
qed

theorem image_operations_result_witness:
  "fst (generateCharacterSheet (answering image_response) fox ''noir'' ''soft lighting'' []) =
     Inr ''data:image/png;base64,QUJD'' \<and>
   fst (generateSceneImage (answering image_response) scene_A [fox] ''noir'' ''soft lighting''
          (Some calm) False []) = Inr ''data:image/png;base64,QUJD'' \<and>
   fst (generateCharacterSheet (answering caption_response) fox ''noir'' ''soft lighting'' []) =
     Inl no_image_error \<and>
   fst (generateSceneImage (answering caption_response) scene_A [fox] ''noir'' ''soft lighting''
          (Some calm) False []) = Inl no_image_error"
proof -
  note a = image_operations_result [where resp = image_response
      and cand = "\<lparr>cand_content = Some \<lparr>content_parts = Some [caption_part, png_part]\<rparr>\<rparr>"
      and others = "[]" and ct = "\<lparr>content_parts = Some [caption_part, png_part]\<rparr>"
      and pre = "[caption_part]" and p = png_part and post = "[]"
      and b = "\<lparr>blob_mimeType = Some ''image/png'', blob_data = Some ''QUJD''\<rparr>"
      and P = "''QUJD''" and rm = "answering image_response" and hist = "[]"
      and character = fox and tone = "''noir''" and styleTags = "''soft lighting''"
      and scene = scene_A and chars = "[fox]" and sliders = "Some calm" and useStoryText = False]
  note b = image_operations_result [where resp = caption_response
      and rm = "answering caption_response" and hist = "[]"
      and character = fox and tone = "''noir''" and styleTags = "''soft lighting''"
      and scene = scene_A and chars = "[fox]" and sliders = "Some calm" and useStoryText = False]
  have 1: "fst (generateCharacterSheet (answering image_response) fox ''noir'' ''soft lighting'' []) =
     Inr ''data:image/png;base64,QUJD''"
    and 2: "fst (generateSceneImage (answering image_response) scene_A [fox] ''noir'' ''soft lighting''
          (Some calm) False []) = Inr ''data:image/png;base64,QUJD''"
    using a by (simp_all add: image_response_def caption_part_def png_part_def answering_def)
  have 3: "fst (generateCharacterSheet (answering caption_response) fox ''noir'' ''soft lighting'' []) =
     Inl no_image_error"
    and 4: "fst (generateSceneImage (answering caption_response) scene_A [fox] ''noir'' ''soft lighting''
          (Some calm) False []) = Inl no_image_error"
    using b by (simp_all add: caption_response_def caption_part_def answering_def response_parts_def)
  from 1 2 3 4 show ?thesis by simp
qed

section \<open>Properties of the uploaded reference\<close>

lemma semicolon_not_lower: "\<not> is_lower CHR '';''"
  by (simp add: is_lower_def)

lemma match_data_uri_sound:
  assumes "match_data_uri url = Some (mime, payload)"
  shows "data_uri_pattern url mime payload"
proof -
  let ?rest = "drop (length ''data:image/'') url"
  let ?sub = "takeWhile is_lower ?rest"
  let ?rest' = "dropWhile is_lower ?rest"
  let ?pay = "drop (length '';base64,'') ?rest'"
  from assms have pre: "prefix ''data:image/'' url"
    by (auto simp: match_data_uri_def split: if_splits)
  with assms have c: "?sub \<noteq> []" "prefix '';base64,'' ?rest'" "?pay \<noteq> []"
    "list_all (\<lambda>c. \<not> line_terminator c) ?pay" "mime = ''image/'' @ ?sub" "payload = ?pay"
    by (auto simp: match_data_uri_def Let_def split: if_splits)
  from pre have u: "url = ''data:image/'' @ ?rest"
    by (auto simp: prefix_def)
  from c(2) have r': "?rest' = '';base64,'' @ ?pay"
    by (auto simp: prefix_def)
  have "?rest = ?sub @ ?rest'" by simp
  with r' have "?rest = ?sub @ '';base64,'' @ ?pay" by simp
  with u have "url = ''data:image/'' @ ?sub @ '';base64,'' @ ?pay" by simp
  then have url: "url = ''data:'' @ (''image/'' @ ?sub) @ '';base64,'' @ ?pay" by simp
  have low: "list_all is_lower ?sub"
    by (simp add: list_all_iff) (meson set_takeWhileD)
  show ?thesis
    unfolding data_uri_pattern_def
    using c(1,3,4,5,6) url low by blast
qed

lemma match_data_uri_complete:
  assumes "data_uri_pattern url mime payload"
  shows "match_data_uri url = Some (mime, payload)"
proof -
  from assms obtain sub where s: "mime = ''image/'' @ sub" "sub \<noteq> []" "list_all is_lower sub"
    "payload \<noteq> []" "list_all (\<lambda>c. \<not> line_terminator c) payload"
    "url = ''data:'' @ mime @ '';base64,'' @ payload"
    unfolding data_uri_pattern_def by blast
  then have url: "url = ''data:image/'' @ sub @ '';base64,'' @ payload" by simp
  then have pre: "prefix ''data:image/'' url" by (simp add: prefix_def)
  from url have rest: "drop (length ''data:image/'') url = sub @ CHR '';'' # ''base64,'' @ payload"
    by simp
  from s(3) have all: "\<And>x. x \<in> set sub \<Longrightarrow> is_lower x" by (simp add: list_all_iff)
  have tw: "takeWhile is_lower (sub @ CHR '';'' # ''base64,'' @ payload) = sub"
    using all semicolon_not_lower by (simp add: takeWhile_append2)
  have dw: "dropWhile is_lower (sub @ CHR '';'' # ''base64,'' @ payload) = '';base64,'' @ payload"
    using all semicolon_not_lower by (simp add: dropWhile_append2)
  show ?thesis
    unfolding match_data_uri_def Let_def rest tw dw
    using pre s(1,2,4,5) by (simp add: prefix_def)
qed

lemma match_data_uri_iff:
  "match_data_uri url = Some (mime, payload) \<longleftrightarrow> data_uri_pattern url mime payload"
  using match_data_uri_sound match_data_uri_complete by blast

lemma match_data_uri_None_iff:
  "match_data_uri url = None \<longleftrightarrow> (\<forall>mime payload. \<not> data_uri_pattern url mime payload)"
proof
  assume "match_data_uri url = None"
  then show "\<forall>mime payload. \<not> data_uri_pattern url mime payload"
    using match_data_uri_complete by fastforce
next
  assume a: "\<forall>mime payload. \<not> data_uri_pattern url mime payload"
  show "match_data_uri url = None"
  proof (cases "match_data_uri url")
    case None
    then show ?thesis .
  next
    case (Some mp)
    then have "data_uri_pattern url (fst mp) (snd mp)"
      using match_data_uri_sound [of url "fst mp" "snd mp"] by simp
    with a show ?thesis by blast
  qed
qed

lemma sheet_parts_plain:
  assumes "\<forall>url. c_uploadUrl character = Some url \<longrightarrow>
        (\<forall>mime payload. \<not> data_uri_pattern url mime payload)"
  shows "sheet_parts character tn styleTags = [TextPart (textPrompt character tn styleTags)]"
proof (cases "c_uploadUrl character")
  case None
  then show ?thesis by (simp add: sheet_parts_def)
next
  case (Some u)
  with assms have "match_data_uri u = None" by (simp add: match_data_uri_None_iff)
  with Some show ?thesis by (simp add: sheet_parts_def)
qed

lemma sheet_parts_photo:
  assumes "c_uploadUrl character = Some url" "data_uri_pattern url mime payload"
  shows "sheet_parts character tn styleTags =
           [InlineDataPart mime payload, TextPart (textPrompt character tn styleTags)]"
proof -
  from assms(2) have m: "match_data_uri url = Some (mime, payload)"
    by (simp add: match_data_uri_iff)
  then have "url \<noteq> []" by (auto simp: match_data_uri_def)
  with assms(1) m show ?thesis by (simp add: sheet_parts_def)
qed

lemma generateCharacterSheet_requests:
  "\<exists>n. fst (snd (generateCharacterSheet rm character tn styleTags hist)) =
         hist @ replicate (Suc n) (sheet_request character tn styleTags)"
  unfolding generateCharacterSheet_def
  by (rule callWithRetry_requests) (simp add: sheet_attempt_answer)

lemma generateCharacterSheet_first_answer:
  assumes "rm (length hist) (sheet_request character tn styleTags) = Inr resp"
    and "first_inline_image (response_parts resp) = Inr u"
  shows "generateCharacterSheet rm character tn styleTags hist =
           (Inr u, hist @ [sheet_request character tn styleTags], [Attempt])"
proof -
  have "sheet_attempt rm character tn styleTags hist =
          (Inr u, hist @ [sheet_request character tn styleTags])"
    by (simp add: sheet_attempt_answer assms)
  then show ?thesis
    unfolding generateCharacterSheet_def by (rule callWithRetry_resolve)
qed

text \<open>
  Claim C9.  When the character has no \<open>uploadUrl\<close>, or one that is not of the form
  \<open>data:image/<lower-case letters>;base64,<payload>\<close>, the parts built are the text
  prompt alone and no error is raised for it: every attempt of generateCharacterSheet
  sends the request with that single text part, the request is the only thing the
  operation sends, and an answer with an image makes it return that image.  When the
  \<open>uploadUrl\<close> is of that form, every request generateCharacterSheet sends has the
  inline image (its MIME type and payload) as first part and the text prompt as second.
\<close>

theorem sheet_upload_reference:
  "((\<forall>url. c_uploadUrl character = Some url \<longrightarrow>
        (\<forall>mime payload. \<not> data_uri_pattern url mime payload)) \<longrightarrow>
      sheet_parts character tn styleTags = [TextPart (textPrompt character tn styleTags)] \<and>
      sheet_attempt rm character tn styleTags hist =
        ((case rm (length hist)
                 (GenerateImage DEFAULT_MODELS_image
                    [TextPart (textPrompt character tn styleTags)] ''1:1'') of
            Inl e \<Rightarrow> Inl e
          | Inr resp \<Rightarrow> first_inline_image (response_parts resp)),
         hist @ [GenerateImage DEFAULT_MODELS_image
                   [TextPart (textPrompt character tn styleTags)] ''1:1'']) \<and>
      (\<exists>n. fst (snd (generateCharacterSheet rm character tn styleTags hist)) =
         hist @ replicate (Suc n)
           (GenerateImage DEFAULT_MODELS_image
              [TextPart (textPrompt character tn styleTags)] ''1:1'')) \<and>
      (rm (length hist)
          (GenerateImage DEFAULT_MODELS_image
             [TextPart (textPrompt character tn styleTags)] ''1:1'') = Inr resp \<and>
       first_inline_image (response_parts resp) = Inr u \<longrightarrow>
         generateCharacterSheet rm character tn styleTags hist =
           (Inr u,
            hist @ [GenerateImage DEFAULT_MODELS_image
                      [TextPart (textPrompt character tn styleTags)] ''1:1''],
            [Attempt]))) \<and>
   (c_uploadUrl character = Some url \<and> data_uri_pattern url mime payload \<longrightarrow>
      sheet_parts character tn styleTags =
        [InlineDataPart mime payload, TextPart (textPrompt character tn styleTags)] \<and>
      sheet_attempt rm character tn styleTags hist =
        ((case rm (length hist)
                 (GenerateImage DEFAULT_MODELS_image
                    [InlineDataPart mime payload,
                     TextPart (textPrompt character tn styleTags)] ''1:1'') of
            Inl e \<Rightarrow> Inl e
          | Inr resp \<Rightarrow> first_inline_image (response_parts resp)),
         hist @ [GenerateImage DEFAULT_MODELS_image
                   [InlineDataPart mime payload,
                    TextPart (textPrompt character tn styleTags)] ''1:1'']) \<and>
      (\<exists>n. fst (snd (generateCharacterSheet rm character tn styleTags hist)) =
         hist @ replicate (Suc n)
           (GenerateImage DEFAULT_MODELS_image
              [InlineDataPart mime payload,
               TextPart (textPrompt character tn styleTags)] ''1:1'')))"
proof (intro conjI impI)
  assume a: "\<forall>url. c_uploadUrl character = Some url \<longrightarrow>
        (\<forall>mime payload. \<not> data_uri_pattern url mime payload)"
  have req: "sheet_request character tn styleTags =
      GenerateImage DEFAULT_MODELS_image [TextPart (textPrompt character tn styleTags)] ''1:1''"
    by (simp add: sheet_request_def sheet_parts_plain [OF a])
  show "sheet_parts character tn styleTags = [TextPart (textPrompt character tn styleTags)]"
    by (rule sheet_parts_plain [OF a])
  show "sheet_attempt rm character tn styleTags hist =
        ((case rm (length hist)
                 (GenerateImage DEFAULT_MODELS_image
                    [TextPart (textPrompt character tn styleTags)] ''1:1'') of
            Inl e \<Rightarrow> Inl e
          | Inr resp \<Rightarrow> first_inline_image (response_parts resp)),
         hist @ [GenerateImage DEFAULT_MODELS_image
                   [TextPart (textPrompt character tn styleTags)] ''1:1''])"
    by (simp only: sheet_attempt_answer req)
  show "\<exists>n. fst (snd (generateCharacterSheet rm character tn styleTags hist)) =
         hist @ replicate (Suc n)
           (GenerateImage DEFAULT_MODELS_image
              [TextPart (textPrompt character tn styleTags)] ''1:1'')"
    using generateCharacterSheet_requests [of rm character tn styleTags hist]
    by (simp only: req)
  assume r: "rm (length hist)
          (GenerateImage DEFAULT_MODELS_image
             [TextPart (textPrompt character tn styleTags)] ''1:1'') = Inr resp \<and>
       first_inline_image (response_parts resp) = Inr u"
  from r have r1: "rm (length hist) (sheet_request character tn styleTags) = Inr resp"
    by (simp only: req)
  from r have r2: "first_inline_image (response_parts resp) = Inr u" ..
  from generateCharacterSheet_first_answer [of rm hist character tn styleTags resp u] r1 r2
  show "generateCharacterSheet rm character tn styleTags hist =
           (Inr u,
            hist @ [GenerateImage DEFAULT_MODELS_image
                      [TextPart (textPrompt character tn styleTags)] ''1:1''],
            [Attempt])"
    by (simp only: req)
next
  assume b: "c_uploadUrl character = Some url \<and> data_uri_pattern url mime payload"
  from b have b1: "c_uploadUrl character = Some url" by (rule conjunct1)
  from b have b2: "data_uri_pattern url mime payload" by (rule conjunct2)
  have parts: "sheet_parts character tn styleTags =
        [InlineDataPart mime payload, TextPart (textPrompt character tn styleTags)]"
    by (rule sheet_parts_photo [OF b1 b2])
  have req: "sheet_request character tn styleTags =
      GenerateImage DEFAULT_MODELS_image
        [InlineDataPart mime payload, TextPart (textPrompt character tn styleTags)] ''1:1''"
    by (simp add: sheet_request_def parts)
  show "sheet_parts character tn styleTags =
        [InlineDataPart mime payload, TextPart (textPrompt character tn styleTags)]"
    by (rule parts)
  show "sheet_attempt rm character tn styleTags hist =
        ((case rm (length hist)
                 (GenerateImage DEFAULT_MODELS_image
                    [InlineDataPart mime payload,
                     TextPart (textPrompt character tn styleTags)] ''1:1'') of
            Inl e \<Rightarrow> Inl e
          | Inr resp \<Rightarrow> first_inline_image (response_parts resp)),
         hist @ [GenerateImage DEFAULT_MODELS_image
                   [InlineDataPart mime payload,
                    TextPart (textPrompt character tn styleTags)] ''1:1''])"
    by (simp only: sheet_attempt_answer req)
  show "\<exists>n. fst (snd (generateCharacterSheet rm character tn styleTags hist)) =
         hist @ replicate (Suc n)
           (GenerateImage DEFAULT_MODELS_image
              [InlineDataPart mime payload,
               TextPart (textPrompt character tn styleTags)] ''1:1'')"
    using generateCharacterSheet_requests [of rm character tn styleTags hist]
    by (simp only: req)
qed

lemma link_no_match: "match_data_uri ''https://example.com/fox.png'' = None"
  by (simp add: match_data_uri_def)

lemma photo_match: "match_data_uri ''data:image/png;base64,QUJD'' = Some (''image/png'', ''QUJD'')"
  by (simp add: match_data_uri_def is_lower_def line_terminator_def)

lemma photo_run:
  "generateCharacterSheet (answering image_response) fox_with_photo ''noir'' ''soft lighting'' [] =
     (Inr ''data:image/png;base64,QUJD'',
      [sheet_request fox_with_photo ''noir'' ''soft lighting''], [Attempt])"
  using generateCharacterSheet_first_answer
    [of "answering image_response" "[]" fox_with_photo "''noir''" "''soft lighting''"
        image_response "''data:image/png;base64,QUJD''"]
  by (simp add: answering_def image_response_url)

theorem sheet_upload_reference_witness:
  "sheet_parts fox_with_link ''noir'' ''soft lighting'' =
     [TextPart (textPrompt fox_with_link ''noir'' ''soft lighting'')] \<and>
   generateCharacterSheet (answering image_response) fox_with_link ''noir'' ''soft lighting'' [] =
     (Inr ''data:image/png;base64,QUJD'',
      [GenerateImage DEFAULT_MODELS_image
         [TextPart (textPrompt fox_with_link ''noir'' ''soft lighting'')] ''1:1''],
      [Attempt]) \<and>
   sheet_parts fox_with_photo ''noir'' ''soft lighting'' =
     [InlineDataPart ''image/png'' ''QUJD'',
      TextPart (textPrompt fox_with_photo ''noir'' ''soft lighting'')] \<and>
   fst (snd (generateCharacterSheet (answering image_response) fox_with_photo ''noir''
               ''soft lighting'' [])) =
     [GenerateImage DEFAULT_MODELS_image
        [InlineDataPart ''image/png'' ''QUJD'',
         TextPart (textPrompt fox_with_photo ''noir'' ''soft lighting'')] ''1:1'']"
proof -
  let ?sent = "fst (snd (generateCharacterSheet (answering image_response) fox_with_photo ''noir''
               ''soft lighting'' []))"
  let ?req = "GenerateImage DEFAULT_MODELS_image
        [InlineDataPart ''image/png'' ''QUJD'',
         TextPart (textPrompt fox_with_photo ''noir'' ''soft lighting'')] ''1:1''"
  have no: "\<forall>url. c_uploadUrl fox_with_link = Some url \<longrightarrow>
        (\<forall>mime payload. \<not> data_uri_pattern url mime payload)"
    using link_no_match by (simp add: fox_with_link_def match_data_uri_None_iff)
  have yes: "c_uploadUrl fox_with_photo = Some ''data:image/png;base64,QUJD'' \<and>
      data_uri_pattern ''data:image/png;base64,QUJD'' ''image/png'' ''QUJD''"
    using photo_match by (simp add: fox_with_photo_def match_data_uri_iff)
  note plain = sheet_upload_reference [where character = fox_with_link and tn = "''noir''"
      and styleTags = "''soft lighting''" and rm = "answering image_response" and hist = "[]"
      and resp = image_response and u = "''data:image/png;base64,QUJD''",
      THEN conjunct1, THEN mp, OF no]
  note photo = sheet_upload_reference [where character = fox_with_photo and tn = "''noir''"
      and styleTags = "''soft lighting''" and rm = "answering image_response" and hist = "[]"
      and url = "''data:image/png;base64,QUJD''"
      and mime = "''image/png''" and payload = "''QUJD''",
      THEN conjunct2, THEN mp, OF yes]
  have 1: "sheet_parts fox_with_link ''noir'' ''soft lighting'' =
     [TextPart (textPrompt fox_with_link ''noir'' ''soft lighting'')]"
    by (rule plain [THEN conjunct1])
  have ans: "answering image_response (length ([] :: request list))
          (GenerateImage DEFAULT_MODELS_image
             [TextPart (textPrompt fox_with_link ''noir'' ''soft lighting'')] ''1:1'') =
          Inr image_response \<and>
       first_inline_image (response_parts image_response) = Inr ''data:image/png;base64,QUJD''"
    by (simp add: answering_def image_response_url)
  have 2: "generateCharacterSheet (answering image_response) fox_with_link ''noir''
      ''soft lighting'' [] =
     (Inr ''data:image/png;base64,QUJD'',
      [] @ [GenerateImage DEFAULT_MODELS_image
         [TextPart (textPrompt fox_with_link ''noir'' ''soft lighting'')] ''1:1''],
      [Attempt])"
    by (rule plain [THEN conjunct2, THEN conjunct2, THEN conjunct2, THEN mp, OF ans])
  have 3: "sheet_parts fox_with_photo ''noir'' ''soft lighting'' =
     [InlineDataPart ''image/png'' ''QUJD'',
      TextPart (textPrompt fox_with_photo ''noir'' ''soft lighting'')]"
    by (rule photo [THEN conjunct1])
  have "\<exists>n. ?sent = [] @ replicate (Suc n) ?req"
    by (rule photo [THEN conjunct2, THEN conjunct2])
  then obtain n where n: "?sent = [] @ replicate (Suc n) ?req" ..
  then have "length ?sent = Suc n" by simp
  moreover have "length ?sent = 1" by (simp add: photo_run)
  ultimately have "n = 0" by simp
  with n have 4: "?sent = [?req]" by simp
  from 2 have 2: "generateCharacterSheet (answering image_response) fox_with_link ''noir''
      ''soft lighting'' [] =
     (Inr ''data:image/png;base64,QUJD'',
      [GenerateImage DEFAULT_MODELS_image
         [TextPart (textPrompt fox_with_link ''noir'' ''soft lighting'')] ''1:1''],
      [Attempt])"
    by (simp only: append_Nil)
  from 1 2 3 4 show ?thesis by (intro conjI)
qed

section \<open>Properties of the reset\<close>




text \<open>
  What a stale completion still writes after a reset: the usage counter when the call
  resolved, the error message when it rejected.  Neither is an entity.
\<close>

lemma stale_settle_after_reset:
  assumes "step st = Input \<or> confirm"
  shows "handleGenerateCharacter_settle charId (Inr sheetUrl) (handleReset confirm st) =
           (handleReset confirm st)\<lparr>sessionUsage := sessionUsage st + 1\<rparr>"
    and "handleGenerateCharacter_settle charId (Inl e) (handleReset confirm st) =
           handleError e (handleReset confirm st)"
  using assms
  by (auto simp: handleReset_def handleGenerateCharacter_settle_def update_character_def
      handleError_def)

lemma handleRegenerateScene_found:
  assumes "find (\<lambda>s. s_id s = sceneId) (scenes st) = Some scene"
    and "generateSceneImage rm scene (characters st) (p_tone (params st))
           (AGE_STYLE_TAGS (p_ageGroup (params st))) (s_sliders scene) useStoryText hist =
         (outcome, hist', evs)"
  shows "handleRegenerateScene rm sceneId useStoryText st hist =
           (handleRegenerateScene_settle sceneId outcome
              (update_scene sceneId (\<lambda>s. s\<lparr>s_isGenerating := Some True\<rparr>)
                 (st\<lparr>loading := True, errorMessage := None\<rparr>)),
            hist', evs)"
  using assms
  by (cases outcome)
    (simp_all add: handleRegenerateScene_def handleRegenerateScene_settle_def Let_def)






section \<open>Properties of analyzeStory\<close>

text \<open>The wrapper resolves only with what some attempt resolved with.\<close>

lemma callWithRetry_Inr:
  "fst (callWithRetry fn retries delay w) = Inr v \<Longrightarrow> \<exists>w0. fst (fn w0) = Inr v"
proof (induction fn retries delay w rule: callWithRetry.induct)
  case (1 fn retries delay w)
  show ?case
  proof (cases "isl (fst (fn w)) \<and> retries > 0 \<and> isRetryable (projl (fst (fn w)))")
    case True
    then obtain e where e: "fn w = (Inl e, snd (fn w))" "isRetryable e"
      by (cases "fn w"; cases "fst (fn w)") auto
    from True "1.prems" have "fst (callWithRetry fn (retries - 1) (delay * 2) (snd (fn w))) = Inr v"
      by (subst (asm) callWithRetry_unfold) simp
    with "1.IH" [OF e(1) [symmetric] refl] True e show ?thesis by simp
  next
    case False
    with "1.prems" have "fst (fn w) = Inr v"
      by (subst (asm) callWithRetry_unfold) simp
    then show ?thesis by blast
  qed
qed

lemma map_of_set_prop_same: "map_of (set_prop k v kvs) k = Some v"
  by (induction kvs) auto

lemma map_of_set_prop_other: "k' \<noteq> k \<Longrightarrow> map_of (set_prop k v kvs) k' = map_of kvs k'"
  by (induction kvs) auto

lemma with_tweaks_tweaks: "get_prop (with_tweaks c) ''tweaks'' = Some empty_tweaks"
  by (simp add: get_prop_def with_tweaks_def map_of_set_prop_same)

text \<open>What the returned value looks like whenever the attempt's last step returns.\<close>

lemma analysis_result_shape:
  assumes "analysis_result parsed = Inr res"
  shows "\<exists>cs. res = JObj (set_prop ''characters'' (JArr (map with_tweaks cs)) (own_entries parsed))"
proof -
  have "\<exists>cs. res = JObj (set_prop ''characters'' (JArr (map with_tweaks cs)) (own_entries parsed))"
    if "res = JObj (set_prop ''characters'' (JArr []) (own_entries parsed))"
    using that by (intro exI [of _ "[]"]) simp
  with assms show ?thesis
    by (auto simp: analysis_result_def split: jsval.splits option.splits if_splits)
qed

lemma analysis_result_characters:
  assumes "analysis_result parsed = Inr res"
  shows "\<exists>cs. get_prop res ''characters'' = Some (JArr cs) \<and>
              (\<forall>c\<in>set cs. get_prop c ''tweaks'' = Some empty_tweaks)"
proof -
  from analysis_result_shape [OF assms] obtain cs where
    "res = JObj (set_prop ''characters'' (JArr (map with_tweaks cs)) (own_entries parsed))"
    by blast
  then have "get_prop res ''characters'' = Some (JArr (map with_tweaks cs))"
    by (simp add: get_prop_def map_of_set_prop_same)
  moreover have "\<forall>c\<in>set (map with_tweaks cs). get_prop c ''tweaks'' = Some empty_tweaks"
    by (auto simp: with_tweaks_tweaks)
  ultimately show ?thesis by blast
qed

lemma analysis_result_other:
  assumes "analysis_result parsed = Inr res" "k \<noteq> ''characters''"
  shows "get_prop res k = map_of (own_entries parsed) k"
proof -
  from analysis_result_shape [OF assms(1)] obtain cs where
    "res = JObj (set_prop ''characters'' (JArr (map with_tweaks cs)) (own_entries parsed))"
    by blast
  with assms(2) show ?thesis
    by (simp add: get_prop_def map_of_set_prop_other)
qed

lemma analyzeStory_attempt_answer:
  "analyzeStory_attempt parse rm story sceneCount tn hist =
     ((case rm (length hist) (GenerateText DEFAULT_MODELS_text (analysis_prompt story sceneCount tn)) of
         Inl e \<Rightarrow> Inl e
       | Inr resp \<Rightarrow>
           (case parse (body_text resp) of Inl e \<Rightarrow> Inl e | Inr parsed \<Rightarrow> analysis_result parsed)),
      hist @ [GenerateText DEFAULT_MODELS_text (analysis_prompt story sceneCount tn)])"
  by (simp add: analyzeStory_attempt_def generateContent_def split: sum.splits)

text \<open>A resolved analysis comes from an answer of the remote model that parsed.\<close>

lemma analyzeStory_Inr:
  assumes "fst (analyzeStory parse rm story sceneCount tn hist) = Inr res"
  shows "\<exists>k resp parsed.
           rm k (GenerateText DEFAULT_MODELS_text (analysis_prompt story sceneCount tn)) = Inr resp \<and>
           parse (body_text resp) = Inr parsed \<and> analysis_result parsed = Inr res"
proof -
  from assms have "fst (callWithRetry (analyzeStory_attempt parse rm story sceneCount tn)
      default_retries default_delay hist) = Inr res"
    by (simp add: analyzeStory_def)
  then have "\<exists>h0. fst (analyzeStory_attempt parse rm story sceneCount tn h0) = Inr res"
    by (rule callWithRetry_Inr)
  then obtain h0 where
    "fst (analyzeStory_attempt parse rm story sceneCount tn h0) = Inr res" ..
  then show ?thesis
    by (auto simp: analyzeStory_attempt_answer split: sum.splits)
qed

text \<open>
  Claim C8.  Whenever analyzeStory returns, its result has a \<open>characters\<close> array, and
  every element of it has a \<open>tweaks\<close> property that is the object with exactly the keys
  hair, clothing, appearance, personality and accessory, each the empty string.
\<close>

theorem analyzeStory_tweaks:
  assumes "fst (analyzeStory parse rm story sceneCount tn hist) = Inr res"
  shows "\<exists>cs. get_prop res ''characters'' = Some (JArr cs) \<and>
           (\<forall>c\<in>set cs.
              get_prop c ''tweaks'' =
                Some (JObj [(''hair'', JStr []), (''clothing'', JStr []), (''appearance'', JStr []),
                            (''personality'', JStr []), (''accessory'', JStr [])]))"
proof -
  from analyzeStory_Inr [OF assms] obtain parsed where "analysis_result parsed = Inr res"
    by blast
  from analysis_result_characters [OF this] show ?thesis
    by (simp add: empty_tweaks_def)
qed

text \<open>The sample run: the fox story, analysed with five pages and the tone "noir" asked for.\<close>

lemma fox_story_run:
  "analyzeStory JSON_parse_samples (answering fox_story_response) ''Once there was a fox.''
     (Count 5) ''noir'' [] =
   (Inr (JObj [(''scenes'',
            JArr [JObj [(''id'', JNum (Finite 1)),
                        (''storyText'', JStr ''Once there was a fox.''),
                        (''description'', JStr ''A fox at the edge of a forest'')]]),
           (''characters'',
            JArr [JObj [(''id'', JStr ''c1''), (''name'', JStr ''Fox''),
                        (''description'', JStr ''a small red fox''),
                        (''tweaks'', empty_tweaks)]]),
           (''determinedTone'', JStr ''whimsical''),
           (''determinedCount'', JNum (Finite 7))]),
    [GenerateText DEFAULT_MODELS_text
       (analysis_prompt ''Once there was a fox.'' (Count 5) ''noir'')],
    [Attempt])"
proof -
  have "analyzeStory_attempt JSON_parse_samples (answering fox_story_response)
          ''Once there was a fox.'' (Count 5) ''noir'' [] =
   (Inr (JObj [(''scenes'',
            JArr [JObj [(''id'', JNum (Finite 1)),
                        (''storyText'', JStr ''Once there was a fox.''),
                        (''description'', JStr ''A fox at the edge of a forest'')]]),
           (''characters'',
            JArr [JObj [(''id'', JStr ''c1''), (''name'', JStr ''Fox''),
                        (''description'', JStr ''a small red fox''),
                        (''tweaks'', empty_tweaks)]]),
           (''determinedTone'', JStr ''whimsical''),
           (''determinedCount'', JNum (Finite 7))]),
    [GenerateText DEFAULT_MODELS_text
       (analysis_prompt ''Once there was a fox.'' (Count 5) ''noir'')])"
    by (simp add: analyzeStory_attempt_answer answering_def fox_story_response_def body_text_def
        JSON_parse_samples_def fox_story_body_def fox_story_value_def analysis_result_def
        get_prop_def with_tweaks_def)
  then show ?thesis
    unfolding analyzeStory_def by (rule callWithRetry_resolve)
qed

theorem analyzeStory_tweaks_witness:
  "fst (analyzeStory JSON_parse_samples (answering fox_story_response) ''Once there was a fox.''
     (Count 5) ''noir'' []) =
   Inr (JObj [(''scenes'',
            JArr [JObj [(''id'', JNum (Finite 1)),
                        (''storyText'', JStr ''Once there was a fox.''),
                        (''description'', JStr ''A fox at the edge of a forest'')]]),
           (''characters'',
            JArr [JObj [(''id'', JStr ''c1''), (''name'', JStr ''Fox''),
                        (''description'', JStr ''a small red fox''),
                        (''tweaks'', empty_tweaks)]]),
           (''determinedTone'', JStr ''whimsical''),
           (''determinedCount'', JNum (Finite 7))]) \<and>
   get_prop (JObj [(''id'', JStr ''c1''), (''name'', JStr ''Fox''),
                   (''description'', JStr ''a small red fox''), (''tweaks'', empty_tweaks)])
     ''tweaks'' =
     Some (JObj [(''hair'', JStr []), (''clothing'', JStr []), (''appearance'', JStr []),
                 (''personality'', JStr []), (''accessory'', JStr [])])"
proof -
  let ?res = "JObj [(''scenes'',
            JArr [JObj [(''id'', JNum (Finite 1)),
                        (''storyText'', JStr ''Once there was a fox.''),
                        (''description'', JStr ''A fox at the edge of a forest'')]]),
           (''characters'',
            JArr [JObj [(''id'', JStr ''c1''), (''name'', JStr ''Fox''),
                        (''description'', JStr ''a small red fox''),
                        (''tweaks'', empty_tweaks)]]),
           (''determinedTone'', JStr ''whimsical''),
           (''determinedCount'', JNum (Finite 7))]"
  have run: "fst (analyzeStory JSON_parse_samples (answering fox_story_response)
     ''Once there was a fox.'' (Count 5) ''noir'' []) = Inr ?res"
    by (simp add: fox_story_run)
  from analyzeStory_tweaks [OF run]
  have "get_prop (JObj [(''id'', JStr ''c1''), (''name'', JStr ''Fox''),
                   (''description'', JStr ''a small red fox''), (''tweaks'', empty_tweaks)])
     ''tweaks'' =
     Some (JObj [(''hair'', JStr []), (''clothing'', JStr []), (''appearance'', JStr []),
                 (''personality'', JStr []), (''accessory'', JStr [])])"
    by (simp add: get_prop_def)
  with run show ?thesis by simp
qed

text \<open>
  Claim C4, as the code has it.  analyzeStory does not compare its \<open>sceneCount\<close> and
  \<open>tone\<close> arguments with the answer, nor put them into the result: they only enter the
  prompt.  Whenever it returns, explicit arguments or not, the \<open>determinedCount\<close> and
  \<open>determinedTone\<close> of the result are the properties of those names in the parsed body
  of an answer of the remote model to that prompt (absent when the body has none).
\<close>

theorem analyzeStory_determined_fields:
  assumes "fst (analyzeStory parse rm story sceneCount tn hist) = Inr res"
  shows "\<exists>k resp parsed.
           rm k (GenerateText DEFAULT_MODELS_text (analysis_prompt story sceneCount tn)) = Inr resp \<and>
           parse (body_text resp) = Inr parsed \<and>
           get_prop res ''determinedCount'' = map_of (own_entries parsed) ''determinedCount'' \<and>
           get_prop res ''determinedTone'' = map_of (own_entries parsed) ''determinedTone''"
proof -
  from analyzeStory_Inr [OF assms] obtain k resp parsed where
    a: "rm k (GenerateText DEFAULT_MODELS_text (analysis_prompt story sceneCount tn)) = Inr resp"
       "parse (body_text resp) = Inr parsed" "analysis_result parsed = Inr res"
    by blast
  have "get_prop res ''determinedCount'' = map_of (own_entries parsed) ''determinedCount''"
    by (rule analysis_result_other [OF a(3)]) simp
  moreover have "get_prop res ''determinedTone'' = map_of (own_entries parsed) ''determinedTone''"
    by (rule analysis_result_other [OF a(3)]) simp
  ultimately show ?thesis using a(1,2) by blast
qed

theorem analyzeStory_determined_fields_witness:
  "get_prop (projr (fst (analyzeStory JSON_parse_samples (answering fox_story_response)
      ''Once there was a fox.'' (Count 5) ''noir'' []))) ''determinedCount'' =
     Some (JNum (Finite 7)) \<and>
   map_of (own_entries fox_story_value) ''determinedCount'' = Some (JNum (Finite 7)) \<and>
   get_prop (projr (fst (analyzeStory JSON_parse_samples (answering fox_story_response)
      ''Once there was a fox.'' (Count 5) ''noir'' []))) ''determinedTone'' =
     Some (JStr ''whimsical'') \<and>
   map_of (own_entries fox_story_value) ''determinedTone'' = Some (JStr ''whimsical'')"
proof -
  let ?run = "fst (analyzeStory JSON_parse_samples (answering fox_story_response)
      ''Once there was a fox.'' (Count 5) ''noir'' [])"
  have run: "?run = Inr (projr ?run)"
    by (simp add: fox_story_run)
  have p: "JSON_parse_samples (body_text fox_story_response) = Inr fox_story_value"
    by (simp add: JSON_parse_samples_def body_text_def fox_story_response_def fox_story_body_def)
  from analyzeStory_determined_fields [OF run] p
  have "get_prop (projr ?run) ''determinedCount'' =
          map_of (own_entries fox_story_value) ''determinedCount'' \<and>
        get_prop (projr ?run) ''determinedTone'' =
          map_of (own_entries fox_story_value) ''determinedTone''"
    by (auto simp: answering_def)
  moreover have "map_of (own_entries fox_story_value) ''determinedCount'' = Some (JNum (Finite 7))"
    "map_of (own_entries fox_story_value) ''determinedTone'' = Some (JStr ''whimsical'')"
    by (simp_all add: fox_story_value_def)
  ultimately show ?thesis by simp
qed

text \<open>
  The claim as stated fails: asked for exactly five pages in the tone "noir", with the
  model answering seven pages and "whimsical", analyzeStory returns seven and
  "whimsical".
\<close>

theorem analyzeStory_echo_counterexample:
  "get_prop (projr (fst (analyzeStory JSON_parse_samples (answering fox_story_response)
      ''Once there was a fox.'' (Count 5) ''noir'' []))) ''determinedCount'' =
     Some (JNum (Finite 7)) \<and>
   get_prop (projr (fst (analyzeStory JSON_parse_samples (answering fox_story_response)
      ''Once there was a fox.'' (Count 5) ''noir'' []))) ''determinedCount'' \<noteq>
     Some (JNum (Finite 5)) \<and>
   get_prop (projr (fst (analyzeStory JSON_parse_samples (answering fox_story_response)
      ''Once there was a fox.'' (Count 5) ''noir'' []))) ''determinedTone'' =
     Some (JStr ''whimsical'') \<and>
   get_prop (projr (fst (analyzeStory JSON_parse_samples (answering fox_story_response)
      ''Once there was a fox.'' (Count 5) ''noir'' []))) ''determinedTone'' \<noteq>
     Some (JStr ''noir'') \<and>
   fst (analyzeStory JSON_parse_samples (answering fox_story_response)
      ''Once there was a fox.'' (Count 5) ''noir'' []) =
     Inr (JObj [(''scenes'',
            JArr [JObj [(''id'', JNum (Finite 1)),
                        (''storyText'', JStr ''Once there was a fox.''),
                        (''description'', JStr ''A fox at the edge of a forest'')]]),
           (''characters'',
            JArr [JObj [(''id'', JStr ''c1''), (''name'', JStr ''Fox''),
                        (''description'', JStr ''a small red fox''),
                        (''tweaks'', empty_tweaks)]]),
           (''determinedTone'', JStr ''whimsical''),
           (''determinedCount'', JNum (Finite 7))])"
  by (simp add: fox_story_run get_prop_def)

text \<open>The wrapper rejects when every attempt rejects.\<close>

lemma callWithRetry_all_rejected:
  assumes "\<forall>w0. isl (fst (fn w0))"
  shows "\<exists>e. fst (callWithRetry fn retries delay w) = Inl e"
proof (cases "fst (callWithRetry fn retries delay w)")
  case (Inl e)
  then show ?thesis by blast
next
  case (Inr v)
  then have "\<exists>w0. fst (fn w0) = Inr v" by (rule callWithRetry_Inr)
  then obtain w0 where "fst (fn w0) = Inr v" ..
  with assms [rule_format, of w0] show ?thesis by simp
qed

lemma html_syntax_error_terminal: "\<not> isRetryable html_syntax_error"
  by (simp add: isRetryable_def errorMsg_def html_syntax_error_def)

text \<open>
  Claim C3, as the code has it.  Only an absent or empty body is replaced: then
  \<open>{}\<close> is parsed instead and, \<open>JSON.parse("{}")\<close> being the empty object, the call
  returns after one attempt a result whose only property is an empty \<open>characters\<close>
  array (it has no \<open>scenes\<close>).  A body that is not empty and that \<open>JSON.parse\<close> rejects
  makes the attempt reject with the parse error; the call rejects with it when the
  wrapper does not retry it, and rejects in any case when every answer is such a body.
\<close>

theorem analyzeStory_body_handling:
  "(rm (length hist) (GenerateText DEFAULT_MODELS_text (analysis_prompt story sceneCount tn)) =
      Inr resp \<longrightarrow>
      ((resp_text resp = None \<or> resp_text resp = Some []) \<and> parse ''{}'' = Inr (JObj []) \<longrightarrow>
         analyzeStory parse rm story sceneCount tn hist =
           (Inr (JObj [(''characters'', JArr [])]),
            hist @ [GenerateText DEFAULT_MODELS_text (analysis_prompt story sceneCount tn)],
            [Attempt])) \<and>
      (resp_text resp = Some t \<and> t \<noteq> [] \<and> parse t = Inl e \<longrightarrow>
         analyzeStory_attempt parse rm story sceneCount tn hist =
           (Inl e, hist @ [GenerateText DEFAULT_MODELS_text (analysis_prompt story sceneCount tn)]) \<and>
         (\<not> isRetryable e \<longrightarrow>
            fst (analyzeStory parse rm story sceneCount tn hist) = Inl e))) \<and>
   ((\<forall>k req. \<exists>r b. rm k req = Inr r \<and> resp_text r = Some b \<and> b \<noteq> [] \<and> isl (parse b)) \<longrightarrow>
      isl (fst (analyzeStory parse rm story sceneCount tn hist)))"
proof (intro conjI impI)
  let ?req = "GenerateText DEFAULT_MODELS_text (analysis_prompt story sceneCount tn)"
  assume r: "rm (length hist) ?req = Inr resp"
  {
    assume a: "(resp_text resp = None \<or> resp_text resp = Some []) \<and> parse ''{}'' = Inr (JObj [])"
    then have "body_text resp = ''{}''" by (auto simp: body_text_def)
    with a r have "analyzeStory_attempt parse rm story sceneCount tn hist =
        (Inr (JObj [(''characters'', JArr [])]), hist @ [?req])"
      by (simp add: analyzeStory_attempt_answer analysis_result_def get_prop_def)
    then show "analyzeStory parse rm story sceneCount tn hist =
        (Inr (JObj [(''characters'', JArr [])]), hist @ [?req], [Attempt])"
      unfolding analyzeStory_def by (rule callWithRetry_resolve)
  }
  {
    assume a: "resp_text resp = Some t \<and> t \<noteq> [] \<and> parse t = Inl e"
    then have "body_text resp = t" by (simp add: body_text_def)
    with a r show att: "analyzeStory_attempt parse rm story sceneCount tn hist = (Inl e, hist @ [?req])"
      by (simp add: analyzeStory_attempt_answer)
    assume "\<not> isRetryable e"
    with att have "callWithRetry (analyzeStory_attempt parse rm story sceneCount tn)
        default_retries default_delay hist = (Inl e, hist @ [?req], [Attempt])"
      by (intro callWithRetry_give_up) simp_all
    then show "fst (analyzeStory parse rm story sceneCount tn hist) = Inl e"
      by (simp add: analyzeStory_def)
  }
next
  assume a: "\<forall>k req. \<exists>r b. rm k req = Inr r \<and> resp_text r = Some b \<and> b \<noteq> [] \<and> isl (parse b)"
  have "\<forall>h0. isl (fst (analyzeStory_attempt parse rm story sceneCount tn h0))"
  proof
    fix h0 :: "request list"
    from a obtain r b where
      "rm (length h0) (GenerateText DEFAULT_MODELS_text (analysis_prompt story sceneCount tn)) = Inr r"
      "resp_text r = Some b" "b \<noteq> []" "isl (parse b)"
      by blast
    then show "isl (fst (analyzeStory_attempt parse rm story sceneCount tn h0))"
      by (auto simp: analyzeStory_attempt_answer body_text_def isl_def)
  qed
  then have "\<exists>e. fst (callWithRetry (analyzeStory_attempt parse rm story sceneCount tn)
      default_retries default_delay hist) = Inl e"
    by (rule callWithRetry_all_rejected)
  then show "isl (fst (analyzeStory parse rm story sceneCount tn hist))"
    by (auto simp: analyzeStory_def)
qed

theorem analyzeStory_body_handling_witness:
  "analyzeStory JSON_parse_samples (answering silent_response) ''Once there was a fox.'' Auto
     ''auto'' [] =
     (Inr (JObj [(''characters'', JArr [])]),
      [GenerateText DEFAULT_MODELS_text (analysis_prompt ''Once there was a fox.'' Auto ''auto'')],
      [Attempt]) \<and>
   JSON_parse_samples ''<html>'' = Inl html_syntax_error \<and>
   fst (analyzeStory JSON_parse_samples (answering html_response) ''Once there was a fox.'' Auto
     ''auto'' []) = Inl html_syntax_error \<and>
   isl (fst (analyzeStory JSON_parse_samples (answering html_response) ''Once there was a fox.'' Auto
     ''auto'' []))"
proof -
  have p: "JSON_parse_samples ''{}'' = Inr (JObj [])"
    "JSON_parse_samples ''<html>'' = Inl html_syntax_error"
    by (simp_all add: JSON_parse_samples_def fox_story_body_def)
  have all: "\<forall>k req. \<exists>r b. answering html_response k req = Inr r \<and> resp_text r = Some b \<and>
      b \<noteq> [] \<and> isl (JSON_parse_samples b)"
    using p(2) by (simp add: answering_def html_response_def)
  from analyzeStory_body_handling [where rm = "answering silent_response" and hist = "[]"
      and parse = JSON_parse_samples and resp = silent_response
      and story = "''Once there was a fox.''" and sceneCount = Auto and tn = "''auto''"] p(1)
  have 1: "analyzeStory JSON_parse_samples (answering silent_response) ''Once there was a fox.'' Auto
     ''auto'' [] =
     (Inr (JObj [(''characters'', JArr [])]),
      [GenerateText DEFAULT_MODELS_text (analysis_prompt ''Once there was a fox.'' Auto ''auto'')],
      [Attempt])"
    by (simp add: answering_def silent_response_def)
  from analyzeStory_body_handling [where rm = "answering html_response" and hist = "[]"
      and parse = JSON_parse_samples and resp = html_response and t = "''<html>''"
      and e = html_syntax_error
      and story = "''Once there was a fox.''" and sceneCount = Auto and tn = "''auto''"]
    p(2) html_syntax_error_terminal all
  have 2: "fst (analyzeStory JSON_parse_samples (answering html_response) ''Once there was a fox.''
     Auto ''auto'' []) = Inl html_syntax_error"
    and 3: "isl (fst (analyzeStory JSON_parse_samples (answering html_response)
     ''Once there was a fox.'' Auto ''auto'' []))"
    by (simp_all add: answering_def html_response_def)
  from 1 p(2) 2 3 show ?thesis by simp
qed

text \<open>
  The claim as stated fails: the body \<open><html>\<close> does not parse, and the call rejects
  with the parse error after its single attempt instead of returning empty lists.
\<close>

theorem analyzeStory_malformed_counterexample:
  "JSON_parse_samples (body_text html_response) = Inl html_syntax_error \<and>
   analyzeStory JSON_parse_samples (answering html_response) ''Once there was a fox.'' Auto
     ''auto'' [] =
     (Inl html_syntax_error,
      [GenerateText DEFAULT_MODELS_text (analysis_prompt ''Once there was a fox.'' Auto ''auto'')],
      [Attempt])"
proof -
  have p: "JSON_parse_samples (body_text html_response) = Inl html_syntax_error"
    by (simp add: JSON_parse_samples_def body_text_def html_response_def fox_story_body_def)
  then have "analyzeStory_attempt JSON_parse_samples (answering html_response)
      ''Once there was a fox.'' Auto ''auto'' [] =
     (Inl html_syntax_error,
      [GenerateText DEFAULT_MODELS_text (analysis_prompt ''Once there was a fox.'' Auto ''auto'')])"
    by (simp add: analyzeStory_attempt_answer answering_def)
  then have "callWithRetry (analyzeStory_attempt JSON_parse_samples (answering html_response)
      ''Once there was a fox.'' Auto ''auto'') default_retries default_delay [] =
     (Inl html_syntax_error,
      [GenerateText DEFAULT_MODELS_text (analysis_prompt ''Once there was a fox.'' Auto ''auto'')],
      [Attempt])"
    by (rule callWithRetry_give_up) (simp add: html_syntax_error_terminal)
  with p show ?thesis by (simp add: analyzeStory_def)
qed

section \<open>Properties of the batch generation\<close>

lemma generateSceneImage_first_answer:
  assumes "rm (length hist) (scene_request scene chars tn styleTags sliders useStoryText) = Inr resp"
    and "first_inline_image (response_parts resp) = Inr url"
  shows "generateSceneImage rm scene chars tn styleTags sliders useStoryText hist =
           (Inr url, hist @ [scene_request scene chars tn styleTags sliders useStoryText], [Attempt])"
proof -
  have "scene_attempt rm scene chars tn styleTags sliders useStoryText hist =
          (Inr url, hist @ [scene_request scene chars tn styleTags sliders useStoryText])"
    by (simp add: scene_attempt_answer assms)
  then show ?thesis
    unfolding generateSceneImage_def by (rule callWithRetry_resolve)
qed

lemma generateSceneImage_terminal:
  assumes "rm (length hist) (scene_request scene chars tn styleTags sliders useStoryText) = Inl e"
    and "\<not> isRetryable e"
  shows "generateSceneImage rm scene chars tn styleTags sliders useStoryText hist =
           (Inl e, hist @ [scene_request scene chars tn styleTags sliders useStoryText], [Attempt])"
proof -
  have "scene_attempt rm scene chars tn styleTags sliders useStoryText hist =
          (Inl e, hist @ [scene_request scene chars tn styleTags sliders useStoryText])"
    by (simp add: scene_attempt_answer assms)
  then show ?thesis
    unfolding generateSceneImage_def by (rule callWithRetry_give_up) (simp add: assms)
qed

text \<open>
  Claim C1, on the code.  The batch over the pages A, B, C of the sample session,
  with the remote model answering the first call with an image and the second with an
  error that is not retried: A has its image and is not generating, the error is
  surfaced in the error message and loading is over, C was never sent (two requests
  went out) - but B is left with \<open>isGenerating = true\<close>.
\<close>

theorem generateAllScenes_second_fails:
  "generateAllScenes failing_second book [] =
     (book\<lparr>step := Scenes, loading := False,
           errorMessage := Some ''An unexpected error occurred: API key not valid'',
           sessionUsage := 1,
           scenes := [scene_A\<lparr>s_imageUrl := Some ''data:image/png;base64,QUJD'',
                              s_isGenerating := Some False\<rparr>,
                      scene_B\<lparr>s_isGenerating := Some True\<rparr>,
                      scene_C]\<rparr>,
      [scene_request scene_A [fox] ''whimsical'' (AGE_STYLE_TAGS Age_5_7) None False,
       scene_request scene_B [fox] ''whimsical'' (AGE_STYLE_TAGS Age_5_7) None False],
      [Attempt, Sleep 4500, Attempt])"
proof -
  let ?tags = "AGE_STYLE_TAGS Age_5_7"
  let ?rA = "scene_request scene_A [fox] ''whimsical'' ?tags None False"
  let ?rB = "scene_request scene_B [fox] ''whimsical'' ?tags None False"
  have a: "generateSceneImage failing_second scene_A [fox] ''whimsical'' ?tags None False [] =
             (Inr ''data:image/png;base64,QUJD'', [?rA], [Attempt])"
    using generateSceneImage_first_answer
      [of failing_second "[]" scene_A "[fox]" "''whimsical''" ?tags None False image_response]
    by (simp add: failing_second_def image_response_url)
  have b: "generateSceneImage failing_second scene_B [fox] ''whimsical'' ?tags None False [?rA] =
             (Inl invalid_key, [?rA, ?rB], [Attempt])"
    using generateSceneImage_terminal
      [of failing_second "[?rA]" scene_B "[fox]" "''whimsical''" ?tags None False invalid_key]
    by (simp add: failing_second_def invalid_key_terminal)
  have ids: "s_id scene_A = 1" "s_id scene_B = 2" "s_id scene_C = 3"
    and img: "\<not> has_image scene_A" "\<not> has_image scene_B" "\<not> has_image scene_C"
    by (simp_all add: scene_A_def scene_B_def scene_C_def has_image_def)
  have msg: "handleError invalid_key st =
      st\<lparr>errorMessage := Some ''An unexpected error occurred: API key not valid''\<rparr>" for st
    by (simp add: handleError_def errorMsg_def invalid_key_def)
  have bk: "characters book = [fox]" "scenes book = [scene_A, scene_B, scene_C]"
    "p_tone (params book) = ''whimsical''" "p_ageGroup (params book) = Age_5_7"
    "sessionUsage book = 0"
    by (simp_all add: book_def)
  show ?thesis
    by (simp add: generateAllScenes_def bk img ids a b msg update_scene_def Let_def)
qed

text \<open>
  The same in general: whenever an error leaves the loop, some page without an image
  was marked generating and every scene with its id is still marked so in the state
  the loop hands to the \<open>catch\<close> block, which does not touch the scenes.
\<close>

lemma generateAllScenes_loop_failure:
  assumes "generateAllScenes_loop rm chars tn style scs st hist = (Inl e, st', hist', evs)"
  shows "\<exists>s\<in>set scs. \<not> has_image s \<and>
           (\<forall>x\<in>set (scenes st'). s_id x = s_id s \<longrightarrow> s_isGenerating x = Some True)"
  using assms
proof (induction scs arbitrary: st hist evs)
  case Nil
  then show ?case by simp
next
  case (Cons scene rest)
  show ?case
  proof (cases "has_image scene")
    case True
    with Cons.prems have "generateAllScenes_loop rm chars tn style rest st hist = (Inl e, st', hist', evs)"
      by simp
    from Cons.IH [OF this] show ?thesis by auto
  next
    case False
    let ?st1 = "update_scene (s_id scene) (\<lambda>s. s\<lparr>s_isGenerating := Some True\<rparr>) st"
    obtain r h1 ev1 where g: "generateSceneImage rm scene chars tn style None False hist = (r, h1, ev1)"
      by (cases "generateSceneImage rm scene chars tn style None False hist") auto
    show ?thesis
    proof (cases r)
      case (Inl e1)
      with False g Cons.prems have "st' = ?st1"
        by (simp add: Let_def)
      then have "\<forall>x\<in>set (scenes st'). s_id x = s_id scene \<longrightarrow> s_isGenerating x = Some True"
        by (auto simp: update_scene_def)
      with False show ?thesis by auto
    next
      case (Inr url)
      let ?st2 = "(update_scene (s_id scene)
                     (\<lambda>s. s\<lparr>s_imageUrl := Some url, s_isGenerating := Some False\<rparr>) ?st1)
                    \<lparr>sessionUsage := sessionUsage ?st1 + 1\<rparr>"
      from False g Inr Cons.prems obtain evs' where
        "generateAllScenes_loop rm chars tn style rest ?st2 h1 = (Inl e, st', hist', evs')"
        by (auto simp: Let_def split: prod.splits)
      from Cons.IH [OF this] show ?thesis by auto
    qed
  qed
qed

lemma generateAllScenes_failure_leaves_generating:
  assumes "generateAllScenes_loop rm (characters st) (p_tone (params st))
             (AGE_STYLE_TAGS (p_ageGroup (params st))) (scenes st)
             (st\<lparr>step := Scenes, loading := True, errorMessage := None\<rparr>) hist =
           (Inl e, st', hist', evs)"
  shows "\<exists>s\<in>set (scenes st). \<not> has_image s \<and>
           (\<forall>x\<in>set (scenes (fst (generateAllScenes rm st hist))).
              s_id x = s_id s \<longrightarrow> s_isGenerating x = Some True)"
proof -
  have "scenes (fst (generateAllScenes rm st hist)) = scenes st'"
    using assms by (simp add: generateAllScenes_def handleError_def)
  with generateAllScenes_loop_failure [OF assms] show ?thesis by simp
qed

section \<open>Properties of the prompts sent\<close>

lemma generateSceneImage_requests:
  "\<exists>n. fst (snd (generateSceneImage rm scene chars tn styleTags sliders useStoryText hist)) =
         hist @ replicate (Suc n) (scene_request scene chars tn styleTags sliders useStoryText)"
  unfolding generateSceneImage_def
  by (rule callWithRetry_requests) (simp add: scene_attempt_answer)

lemma generateAllScenes_loop_requests:
  "\<exists>reqs. fst (snd (snd (generateAllScenes_loop rm chars tn style scs st hist))) = hist @ reqs \<and>
          (\<forall>r\<in>set reqs. \<exists>s\<in>set scs. r = scene_request s chars tn style None False)"
proof (induction scs arbitrary: st hist)
  case Nil
  show ?case by simp
next
  case (Cons scene rest)
  show ?case
  proof (cases "has_image scene")
    case True
    from Cons.IH [of st hist] True show ?thesis by auto
  next
    case False
    let ?req = "scene_request scene chars tn style None False"
    obtain r h1 ev1 where g: "generateSceneImage rm scene chars tn style None False hist = (r, h1, ev1)"
      by (cases "generateSceneImage rm scene chars tn style None False hist") auto
    from generateSceneImage_requests [of rm scene chars tn style None False hist] g
    obtain n where h1: "h1 = hist @ replicate (Suc n) ?req" by auto
    show ?thesis
    proof (cases r)
      case (Inl e)
      with False g have "fst (snd (snd (generateAllScenes_loop rm chars tn style (scene # rest) st hist))) = h1"
        by (simp add: Let_def)
      with h1 show ?thesis
        by (intro exI [of _ "replicate (Suc n) ?req"]) auto
    next
      case (Inr url)
      let ?st2 = "(update_scene (s_id scene)
                     (\<lambda>s. s\<lparr>s_imageUrl := Some url, s_isGenerating := Some False\<rparr>)
                     (update_scene (s_id scene) (\<lambda>s. s\<lparr>s_isGenerating := Some True\<rparr>) st))
                    \<lparr>sessionUsage :=
                       sessionUsage (update_scene (s_id scene) (\<lambda>s. s\<lparr>s_isGenerating := Some True\<rparr>) st) + 1\<rparr>"
      from Cons.IH [of ?st2 h1] obtain reqs where
        rq: "fst (snd (snd (generateAllScenes_loop rm chars tn style rest ?st2 h1))) = h1 @ reqs"
            "\<forall>r\<in>set reqs. \<exists>s\<in>set rest. r = scene_request s chars tn style None False"
        by blast
      from False g Inr
      have "fst (snd (snd (generateAllScenes_loop rm chars tn style (scene # rest) st hist))) =
              fst (snd (snd (generateAllScenes_loop rm chars tn style rest ?st2 h1)))"
        by (simp add: Let_def split: prod.splits)
      with rq(1) h1
      have "fst (snd (snd (generateAllScenes_loop rm chars tn style (scene # rest) st hist))) =
              hist @ (replicate (Suc n) ?req @ reqs)"
        by simp
      moreover from rq(2)
      have "\<forall>r\<in>set (replicate (Suc n) ?req @ reqs).
              \<exists>s\<in>set (scene # rest). r = scene_request s chars tn style None False"
        by auto
      ultimately show ?thesis by blast
    qed
  qed
qed

lemma generateAllScenes_requests:
  "\<exists>reqs. fst (snd (generateAllScenes rm st hist)) = hist @ reqs \<and>
          (\<forall>r\<in>set reqs. \<exists>s\<in>set (scenes st).
              r = scene_request s (characters st) (p_tone (params st))
                    (AGE_STYLE_TAGS (p_ageGroup (params st))) None False)"
proof -
  let ?loop = "generateAllScenes_loop rm (characters st) (p_tone (params st))
             (AGE_STYLE_TAGS (p_ageGroup (params st))) (scenes st)
             (st\<lparr>step := Scenes, loading := True, errorMessage := None\<rparr>) hist"
  have "fst (snd (generateAllScenes rm st hist)) = fst (snd (snd ?loop))"
    by (simp add: generateAllScenes_def split: prod.splits sum.splits)
  with generateAllScenes_loop_requests
    [of rm "characters st" "p_tone (params st)" "AGE_STYLE_TAGS (p_ageGroup (params st))"
        "scenes st" "st\<lparr>step := Scenes, loading := True, errorMessage := None\<rparr>" hist]
  show ?thesis by simp
qed

lemma handleRegenerateScene_requests:
  assumes "find (\<lambda>s. s_id s = sceneId) (scenes st) = Some scene"
  shows "\<exists>n. fst (snd (handleRegenerateScene rm sceneId useStoryText st hist)) =
           hist @ replicate (Suc n)
             (scene_request scene (characters st) (p_tone (params st))
                (AGE_STYLE_TAGS (p_ageGroup (params st))) (s_sliders scene) useStoryText)"
proof -
  let ?g = "generateSceneImage rm scene (characters st) (p_tone (params st))
              (AGE_STYLE_TAGS (p_ageGroup (params st))) (s_sliders scene) useStoryText hist"
  have "fst (snd (handleRegenerateScene rm sceneId useStoryText st hist)) = fst (snd ?g)"
    using assms by (simp add: handleRegenerateScene_def Let_def split: prod.splits sum.splits)
  with generateSceneImage_requests show ?thesis by simp
qed

lemma tweakSceneAction_requests:
  "\<exists>n sent. fst (snd (tweakSceneAction rm sceneId newDescription newStoryText useStoryText st hist)) =
           hist @ replicate (Suc n)
             (scene_request sent (characters st) (p_tone (params st))
                (AGE_STYLE_TAGS (p_ageGroup (params st))) (Some (editingSliders st)) useStoryText) \<and>
           s_description sent = newDescription \<and> s_storyText sent = newStoryText"
proof -
  let ?sent = "case find (\<lambda>s. s_id s = sceneId) (scenes st) of
                    Some scene \<Rightarrow> scene\<lparr>s_description := newDescription, s_storyText := newStoryText\<rparr>
                  | None \<Rightarrow> \<lparr>s_id = 0, s_description = newDescription, s_storyText = newStoryText,
                             s_imageUrl = None, s_isGenerating = None, s_sliders = None\<rparr>"
  let ?g = "generateSceneImage rm ?sent (characters st) (p_tone (params st))
              (AGE_STYLE_TAGS (p_ageGroup (params st))) (Some (editingSliders st)) useStoryText hist"
  have "fst (snd (tweakSceneAction rm sceneId newDescription newStoryText useStoryText st hist)) =
          fst (snd ?g)"
    by (simp add: tweakSceneAction_def Let_def split: prod.splits sum.splits)
  moreover have "s_description ?sent = newDescription \<and> s_storyText ?sent = newStoryText"
    by (simp split: option.splits)
  ultimately show ?thesis
    using generateSceneImage_requests
      [of rm ?sent "characters st" "p_tone (params st)" "AGE_STYLE_TAGS (p_ageGroup (params st))"
          "Some (editingSliders st)" useStoryText hist]
    by auto
qed

lemma scene_request_plain:
  "scene_request s chars tn style None False =
     GenerateImage DEFAULT_MODELS_image
       [TextPart (''CHILDREN'S BOOK ILLUSTRATION. Scene focus: '' @ s_description s @
                  ''. Characters present: '' @ characterContext chars @
                  ''. Style: '' @ tn @ '', '' @ style @
                  ''. Consistent character appearances. 4K quality.'')] ''16:9''"
  by (simp add: scene_request_def scene_prompt_def primaryPrompt_def sliderContext_def)

lemma scene_request_sliders:
  "scene_request s chars tn style (Some sl) useStoryText =
     GenerateImage DEFAULT_MODELS_image
       [TextPart (''CHILDREN'S BOOK ILLUSTRATION. Scene focus: '' @
                  (if useStoryText then s_storyText s else s_description s) @
                  ''. Characters present: '' @ characterContext chars @
                  ''. Style: '' @ tn @ '', '' @ style @
                  ''. Atmosphere: Tone:'' @ show_int (sl_tone sl) @
                  '', Excitement:'' @ show_int (sl_excitement sl) @
                  '', Happiness:'' @ show_int (sl_happiness sl) @
                  '', Energy:'' @ show_int (sl_energy sl) @
                  '', Tension:'' @ show_int (sl_tension sl) @
                  ''. Consistent character appearances. 4K quality.'')] ''16:9''"
  by (simp add: scene_request_def scene_prompt_def primaryPrompt_def sliderContext_def)


lemma batch_requests_plain:
  "\<exists>reqs. fst (snd (generateAllScenes rm st hist)) = hist @ reqs \<and>
      (\<forall>r\<in>set reqs. \<exists>s\<in>set (scenes st).
          r = GenerateImage DEFAULT_MODELS_image
                [TextPart (''CHILDREN'S BOOK ILLUSTRATION. Scene focus: '' @ s_description s @
                   ''. Characters present: '' @ characterContext (characters st) @
                   ''. Style: '' @ p_tone (params st) @ '', '' @
                   AGE_STYLE_TAGS (p_ageGroup (params st)) @
                   ''. Consistent character appearances. 4K quality.'')] ''16:9'')"
  using generateAllScenes_requests [of rm st hist]
  by (simp only: scene_request_plain)

lemma regenerate_requests_atmosphere:
  assumes f: "find (\<lambda>s. s_id s = sceneId) (scenes st) = Some scene" and sl: "s_sliders scene = Some sl"
  shows "\<exists>n. fst (snd (handleRegenerateScene rm sceneId useStoryText st hist)) =
         hist @ replicate (Suc n)
           (GenerateImage DEFAULT_MODELS_image
              [TextPart (''CHILDREN'S BOOK ILLUSTRATION. Scene focus: '' @
                 (if useStoryText then s_storyText scene else s_description scene) @
                 ''. Characters present: '' @ characterContext (characters st) @
                 ''. Style: '' @ p_tone (params st) @ '', '' @
                 AGE_STYLE_TAGS (p_ageGroup (params st)) @
                 ''. Atmosphere: Tone:'' @ show_int (sl_tone sl) @
                 '', Excitement:'' @ show_int (sl_excitement sl) @
                 '', Happiness:'' @ show_int (sl_happiness sl) @
                 '', Energy:'' @ show_int (sl_energy sl) @
                 '', Tension:'' @ show_int (sl_tension sl) @
                 ''. Consistent character appearances. 4K quality.'')] ''16:9'')"
  using handleRegenerateScene_requests [OF f, of rm useStoryText hist]
  by (simp only: sl scene_request_sliders)

lemma tweak_requests_atmosphere:
  "\<exists>n. fst (snd (tweakSceneAction rm sceneId newDescription newStoryText useStoryText st hist)) =
      hist @ replicate (Suc n)
        (GenerateImage DEFAULT_MODELS_image
           [TextPart (''CHILDREN'S BOOK ILLUSTRATION. Scene focus: '' @
              (if useStoryText then newStoryText else newDescription) @
              ''. Characters present: '' @ characterContext (characters st) @
              ''. Style: '' @ p_tone (params st) @ '', '' @
              AGE_STYLE_TAGS (p_ageGroup (params st)) @
              ''. Atmosphere: Tone:'' @ show_int (sl_tone (editingSliders st)) @
              '', Excitement:'' @ show_int (sl_excitement (editingSliders st)) @
              '', Happiness:'' @ show_int (sl_happiness (editingSliders st)) @
              '', Energy:'' @ show_int (sl_energy (editingSliders st)) @
              '', Tension:'' @ show_int (sl_tension (editingSliders st)) @
              ''. Consistent character appearances. 4K quality.'')] ''16:9'')"
proof -
  from tweakSceneAction_requests [of rm sceneId newDescription newStoryText useStoryText st hist]
  obtain n sent where
    t: "fst (snd (tweakSceneAction rm sceneId newDescription newStoryText useStoryText st hist)) =
           hist @ replicate (Suc n)
             (scene_request sent (characters st) (p_tone (params st))
                (AGE_STYLE_TAGS (p_ageGroup (params st))) (Some (editingSliders st)) useStoryText)"
       "s_description sent = newDescription" "s_storyText sent = newStoryText"
    by blast
  have "scene_request sent (characters st) (p_tone (params st))
                (AGE_STYLE_TAGS (p_ageGroup (params st))) (Some (editingSliders st)) useStoryText =
        GenerateImage DEFAULT_MODELS_image
           [TextPart (''CHILDREN'S BOOK ILLUSTRATION. Scene focus: '' @
              (if useStoryText then newStoryText else newDescription) @
              ''. Characters present: '' @ characterContext (characters st) @
              ''. Style: '' @ p_tone (params st) @ '', '' @
              AGE_STYLE_TAGS (p_ageGroup (params st)) @
              ''. Atmosphere: Tone:'' @ show_int (sl_tone (editingSliders st)) @
              '', Excitement:'' @ show_int (sl_excitement (editingSliders st)) @
              '', Happiness:'' @ show_int (sl_happiness (editingSliders st)) @
              '', Energy:'' @ show_int (sl_energy (editingSliders st)) @
              '', Tension:'' @ show_int (sl_tension (editingSliders st)) @
              ''. Consistent character appearances. 4K quality.'')] ''16:9''"
    by (simp only: scene_request_sliders t(2,3))
  with t(1) show ?thesis by (intro exI [of _ n]) (simp only:)
qed


text \<open>
  Claim C10.  Every request the batch sends is the request of one of the session's
  scenes built without sliders: its prompt goes from the style straight on to
  "Consistent character appearances", whatever sliders the scene has.  The
  single-scene paths send the atmosphere clause: \<open>handleRegenerateScene\<close> that of the
  scene's own sliders (when it has some), \<open>tweakSceneAction\<close> that of the sliders
  being edited.
\<close>

theorem batch_prompt_without_atmosphere:
  "(\<exists>reqs. fst (snd (generateAllScenes rm st hist)) = hist @ reqs \<and>
      (\<forall>r\<in>set reqs. \<exists>s\<in>set (scenes st).
          r = GenerateImage DEFAULT_MODELS_image
                [TextPart (''CHILDREN'S BOOK ILLUSTRATION. Scene focus: '' @ s_description s @
                   ''. Characters present: '' @ characterContext (characters st) @
                   ''. Style: '' @ p_tone (params st) @ '', '' @
                   AGE_STYLE_TAGS (p_ageGroup (params st)) @
                   ''. Consistent character appearances. 4K quality.'')] ''16:9'')) \<and>
   (find (\<lambda>s. s_id s = sceneId) (scenes st) = Some scene \<and> s_sliders scene = Some sl \<longrightarrow>
      (\<exists>n. fst (snd (handleRegenerateScene rm sceneId useStoryText st hist)) =
         hist @ replicate (Suc n)
           (GenerateImage DEFAULT_MODELS_image
              [TextPart (''CHILDREN'S BOOK ILLUSTRATION. Scene focus: '' @
                 (if useStoryText then s_storyText scene else s_description scene) @
                 ''. Characters present: '' @ characterContext (characters st) @
                 ''. Style: '' @ p_tone (params st) @ '', '' @
                 AGE_STYLE_TAGS (p_ageGroup (params st)) @
                 ''. Atmosphere: Tone:'' @ show_int (sl_tone sl) @
                 '', Excitement:'' @ show_int (sl_excitement sl) @
                 '', Happiness:'' @ show_int (sl_happiness sl) @
                 '', Energy:'' @ show_int (sl_energy sl) @
                 '', Tension:'' @ show_int (sl_tension sl) @
                 ''. Consistent character appearances. 4K quality.'')] ''16:9''))) \<and>
   (\<exists>n. fst (snd (tweakSceneAction rm sceneId newDescription newStoryText useStoryText st hist)) =
      hist @ replicate (Suc n)
        (GenerateImage DEFAULT_MODELS_image
           [TextPart (''CHILDREN'S BOOK ILLUSTRATION. Scene focus: '' @
              (if useStoryText then newStoryText else newDescription) @
              ''. Characters present: '' @ characterContext (characters st) @
              ''. Style: '' @ p_tone (params st) @ '', '' @
              AGE_STYLE_TAGS (p_ageGroup (params st)) @
              ''. Atmosphere: Tone:'' @ show_int (sl_tone (editingSliders st)) @
              '', Excitement:'' @ show_int (sl_excitement (editingSliders st)) @
              '', Happiness:'' @ show_int (sl_happiness (editingSliders st)) @
              '', Energy:'' @ show_int (sl_energy (editingSliders st)) @
              '', Tension:'' @ show_int (sl_tension (editingSliders st)) @
              ''. Consistent character appearances. 4K quality.'')] ''16:9''))"
proof (intro conjI impI)
  show "\<exists>reqs. fst (snd (generateAllScenes rm st hist)) = hist @ reqs \<and>
      (\<forall>r\<in>set reqs. \<exists>s\<in>set (scenes st).
          r = GenerateImage DEFAULT_MODELS_image
                [TextPart (''CHILDREN'S BOOK ILLUSTRATION. Scene focus: '' @ s_description s @
                   ''. Characters present: '' @ characterContext (characters st) @
                   ''. Style: '' @ p_tone (params st) @ '', '' @
                   AGE_STYLE_TAGS (p_ageGroup (params st)) @
                   ''. Consistent character appearances. 4K quality.'')] ''16:9'')"
    by (rule batch_requests_plain)
next
  assume a: "find (\<lambda>s. s_id s = sceneId) (scenes st) = Some scene \<and> s_sliders scene = Some sl"
  from a have f: "find (\<lambda>s. s_id s = sceneId) (scenes st) = Some scene" ..
  from a have sl: "s_sliders scene = Some sl" ..
  from f sl
  show "\<exists>n. fst (snd (handleRegenerateScene rm sceneId useStoryText st hist)) =
         hist @ replicate (Suc n)
           (GenerateImage DEFAULT_MODELS_image
              [TextPart (''CHILDREN'S BOOK ILLUSTRATION. Scene focus: '' @
                 (if useStoryText then s_storyText scene else s_description scene) @
                 ''. Characters present: '' @ characterContext (characters st) @
                 ''. Style: '' @ p_tone (params st) @ '', '' @
                 AGE_STYLE_TAGS (p_ageGroup (params st)) @
                 ''. Atmosphere: Tone:'' @ show_int (sl_tone sl) @
                 '', Excitement:'' @ show_int (sl_excitement sl) @
                 '', Happiness:'' @ show_int (sl_happiness sl) @
                 '', Energy:'' @ show_int (sl_energy sl) @
                 '', Tension:'' @ show_int (sl_tension sl) @
                 ''. Consistent character appearances. 4K quality.'')] ''16:9'')"
    by (rule regenerate_requests_atmosphere)
next
  show "\<exists>n. fst (snd (tweakSceneAction rm sceneId newDescription newStoryText useStoryText st hist)) =
      hist @ replicate (Suc n)
        (GenerateImage DEFAULT_MODELS_image
           [TextPart (''CHILDREN'S BOOK ILLUSTRATION. Scene focus: '' @
              (if useStoryText then newStoryText else newDescription) @
              ''. Characters present: '' @ characterContext (characters st) @
              ''. Style: '' @ p_tone (params st) @ '', '' @
              AGE_STYLE_TAGS (p_ageGroup (params st)) @
              ''. Atmosphere: Tone:'' @ show_int (sl_tone (editingSliders st)) @
              '', Excitement:'' @ show_int (sl_excitement (editingSliders st)) @
              '', Happiness:'' @ show_int (sl_happiness (editingSliders st)) @
              '', Energy:'' @ show_int (sl_energy (editingSliders st)) @
              '', Tension:'' @ show_int (sl_tension (editingSliders st)) @
              ''. Consistent character appearances. 4K quality.'')] ''16:9'')"
    by (rule tweak_requests_atmosphere)
qed

text \<open>The sample session, every call answered with an image.\<close>

lemma book_batch_run:
  "fst (snd (generateAllScenes (answering image_response) book [])) =
     [scene_request scene_A [fox] ''whimsical'' (AGE_STYLE_TAGS Age_5_7) None False,
      scene_request scene_B [fox] ''whimsical'' (AGE_STYLE_TAGS Age_5_7) None False,
      scene_request scene_C [fox] ''whimsical'' (AGE_STYLE_TAGS Age_5_7) None False]"
proof -
  let ?tags = "AGE_STYLE_TAGS Age_5_7"
  have g: "generateSceneImage (answering image_response) s [fox] ''whimsical'' ?tags None False h =
             (Inr ''data:image/png;base64,QUJD'',
              h @ [scene_request s [fox] ''whimsical'' ?tags None False], [Attempt])" for s h
    by (rule generateSceneImage_first_answer [of _ _ _ _ _ _ _ _ image_response])
      (simp_all add: answering_def image_response_url)
  have img: "\<not> has_image scene_A" "\<not> has_image scene_B" "\<not> has_image scene_C"
    by (simp_all add: scene_A_def scene_B_def scene_C_def has_image_def)
  have bk: "characters book = [fox]" "scenes book = [scene_A, scene_B, scene_C]"
    "p_tone (params book) = ''whimsical''" "p_ageGroup (params book) = Age_5_7"
    by (simp_all add: book_def)
  show ?thesis
    by (simp add: generateAllScenes_def bk img g Let_def)
qed

lemma book_regenerate_run:
  "fst (snd (handleRegenerateScene (answering image_response) 1 False book [])) =
     [scene_request scene_A [fox] ''whimsical'' (AGE_STYLE_TAGS Age_5_7) (Some calm) False]"
proof -
  let ?tags = "AGE_STYLE_TAGS Age_5_7"
  have g: "generateSceneImage (answering image_response) scene_A [fox] ''whimsical'' ?tags
             (Some calm) False [] =
             (Inr ''data:image/png;base64,QUJD'',
              [scene_request scene_A [fox] ''whimsical'' ?tags (Some calm) False], [Attempt])"
    using generateSceneImage_first_answer
      [of "answering image_response" "[]" scene_A "[fox]" "''whimsical''" ?tags "Some calm" False
          image_response]
    by (simp add: answering_def image_response_url)
  have f: "find (\<lambda>s. s_id s = 1) (scenes book) = Some scene_A"
    by (simp add: book_def scene_A_def)
  have bk: "characters book = [fox]"
    "p_tone (params book) = ''whimsical''" "p_ageGroup (params book) = Age_5_7"
    "s_sliders scene_A = Some calm"
    by (simp_all add: book_def scene_A_def)
  show ?thesis
    by (simp add: handleRegenerateScene_def f bk g Let_def)
qed

lemma fox_context: "characterContext [fox] = ''Fox (a small red fox, with clothing: blue scarf)''"
  by (simp add: characterContext_def fox_def tweakStr_def tweak_entries_def)

lemma calm_shown:
  "show_int (sl_tone calm) = ''5''" "show_int (sl_excitement calm) = ''2''"
  "show_int (sl_happiness calm) = ''7''" "show_int (sl_energy calm) = ''3''"
  "show_int (sl_tension calm) = ''1''"
  by (simp_all add: calm_def show_int_def show_nat.simps)

lemma book_fields:
  "characters book = [fox]" "p_tone (params book) = ''whimsical''"
  "p_ageGroup (params book) = Age_5_7"
  by (simp_all add: book_def)

lemma scene_A_plain:
  "scene_request scene_A [fox] ''whimsical'' (AGE_STYLE_TAGS Age_5_7) None False =
     GenerateImage DEFAULT_MODELS_image
        [TextPart ''CHILDREN'S BOOK ILLUSTRATION. Scene focus: A fox at the edge of a forest. Characters present: Fox (a small red fox, with clothing: blue scarf). Style: whimsical, Watercolor and colored pencil textures, gentle gradients, whimsical atmosphere, soft lighting, medium detail levels.. Consistent character appearances. 4K quality.'']
        ''16:9''"
  by (simp add: scene_request_plain fox_context scene_A_def AGE_STYLE_TAGS_def)

lemma scene_B_plain:
  "scene_request scene_B [fox] ''whimsical'' (AGE_STYLE_TAGS Age_5_7) None False =
     GenerateImage DEFAULT_MODELS_image
        [TextPart ''CHILDREN'S BOOK ILLUSTRATION. Scene focus: The fox crosses a river. Characters present: Fox (a small red fox, with clothing: blue scarf). Style: whimsical, Watercolor and colored pencil textures, gentle gradients, whimsical atmosphere, soft lighting, medium detail levels.. Consistent character appearances. 4K quality.'']
        ''16:9''"
  by (simp add: scene_request_plain fox_context scene_B_def AGE_STYLE_TAGS_def)

lemma scene_C_plain:
  "scene_request scene_C [fox] ''whimsical'' (AGE_STYLE_TAGS Age_5_7) None False =
     GenerateImage DEFAULT_MODELS_image
        [TextPart ''CHILDREN'S BOOK ILLUSTRATION. Scene focus: The fox sleeps under the stars. Characters present: Fox (a small red fox, with clothing: blue scarf). Style: whimsical, Watercolor and colored pencil textures, gentle gradients, whimsical atmosphere, soft lighting, medium detail levels.. Consistent character appearances. 4K quality.'']
        ''16:9''"
  by (simp add: scene_request_plain fox_context scene_C_def AGE_STYLE_TAGS_def)

lemma scene_A_calm:
  "scene_request scene_A [fox] ''whimsical'' (AGE_STYLE_TAGS Age_5_7) (Some calm) False =
     GenerateImage DEFAULT_MODELS_image
        [TextPart ''CHILDREN'S BOOK ILLUSTRATION. Scene focus: A fox at the edge of a forest. Characters present: Fox (a small red fox, with clothing: blue scarf). Style: whimsical, Watercolor and colored pencil textures, gentle gradients, whimsical atmosphere, soft lighting, medium detail levels.. Atmosphere: Tone:5, Excitement:2, Happiness:7, Energy:3, Tension:1. Consistent character appearances. 4K quality.'']
        ''16:9''"
  by (simp add: scene_request_sliders fox_context calm_shown scene_A_def AGE_STYLE_TAGS_def)

theorem batch_prompt_without_atmosphere_witness:
  "find (\<lambda>s. s_id s = 1) (scenes book) = Some scene_A \<and> s_sliders scene_A = Some calm \<and>
   fst (snd (generateAllScenes (answering image_response) book [])) =
     [GenerateImage DEFAULT_MODELS_image
        [TextPart ''CHILDREN'S BOOK ILLUSTRATION. Scene focus: A fox at the edge of a forest. Characters present: Fox (a small red fox, with clothing: blue scarf). Style: whimsical, Watercolor and colored pencil textures, gentle gradients, whimsical atmosphere, soft lighting, medium detail levels.. Consistent character appearances. 4K quality.'']
        ''16:9'',
      GenerateImage DEFAULT_MODELS_image
        [TextPart ''CHILDREN'S BOOK ILLUSTRATION. Scene focus: The fox crosses a river. Characters present: Fox (a small red fox, with clothing: blue scarf). Style: whimsical, Watercolor and colored pencil textures, gentle gradients, whimsical atmosphere, soft lighting, medium detail levels.. Consistent character appearances. 4K quality.'']
        ''16:9'',
      GenerateImage DEFAULT_MODELS_image
        [TextPart ''CHILDREN'S BOOK ILLUSTRATION. Scene focus: The fox sleeps under the stars. Characters present: Fox (a small red fox, with clothing: blue scarf). Style: whimsical, Watercolor and colored pencil textures, gentle gradients, whimsical atmosphere, soft lighting, medium detail levels.. Consistent character appearances. 4K quality.'']
        ''16:9''] \<and>
   fst (snd (handleRegenerateScene (answering image_response) 1 False book [])) =
     [GenerateImage DEFAULT_MODELS_image
        [TextPart ''CHILDREN'S BOOK ILLUSTRATION. Scene focus: A fox at the edge of a forest. Characters present: Fox (a small red fox, with clothing: blue scarf). Style: whimsical, Watercolor and colored pencil textures, gentle gradients, whimsical atmosphere, soft lighting, medium detail levels.. Atmosphere: Tone:5, Excitement:2, Happiness:7, Energy:3, Tension:1. Consistent character appearances. 4K quality.'']
        ''16:9'']"
proof -
  let ?sent = "fst (snd (handleRegenerateScene (answering image_response) 1 False book []))"
  have f: "find (\<lambda>s. s_id s = 1) (scenes book) = Some scene_A \<and> s_sliders scene_A = Some calm"
    by (simp add: book_def scene_A_def)
  note inst = batch_prompt_without_atmosphere
    [where rm = "answering image_response" and st = book and hist = "[]" and sceneId = 1
      and scene = scene_A and sl = calm and useStoryText = False]
  from inst have "find (\<lambda>s. s_id s = 1) (scenes book) = Some scene_A \<and> s_sliders scene_A = Some calm \<longrightarrow>
      (\<exists>n. ?sent =
         [] @ replicate (Suc n)
           (GenerateImage DEFAULT_MODELS_image
              [TextPart (''CHILDREN'S BOOK ILLUSTRATION. Scene focus: '' @
                 (if False then s_storyText scene_A else s_description scene_A) @
                 ''. Characters present: '' @ characterContext (characters book) @
                 ''. Style: '' @ p_tone (params book) @ '', '' @
                 AGE_STYLE_TAGS (p_ageGroup (params book)) @
                 ''. Atmosphere: Tone:'' @ show_int (sl_tone calm) @
                 '', Excitement:'' @ show_int (sl_excitement calm) @
                 '', Happiness:'' @ show_int (sl_happiness calm) @
                 '', Energy:'' @ show_int (sl_energy calm) @
                 '', Tension:'' @ show_int (sl_tension calm) @
                 ''. Consistent character appearances. 4K quality.'')] ''16:9''))"
    by (rule conjunct1 [OF conjunct2])
  from this f have "\<exists>n. ?sent =
         [] @ replicate (Suc n)
           (GenerateImage DEFAULT_MODELS_image
              [TextPart (''CHILDREN'S BOOK ILLUSTRATION. Scene focus: '' @
                 (if False then s_storyText scene_A else s_description scene_A) @
                 ''. Characters present: '' @ characterContext (characters book) @
                 ''. Style: '' @ p_tone (params book) @ '', '' @
                 AGE_STYLE_TAGS (p_ageGroup (params book)) @
                 ''. Atmosphere: Tone:'' @ show_int (sl_tone calm) @
                 '', Excitement:'' @ show_int (sl_excitement calm) @
                 '', Happiness:'' @ show_int (sl_happiness calm) @
                 '', Energy:'' @ show_int (sl_energy calm) @
                 '', Tension:'' @ show_int (sl_tension calm) @
                 ''. Consistent character appearances. 4K quality.'')] ''16:9'')"
    by (rule mp)
  then have "\<exists>n. ?sent = replicate (Suc n)
      (scene_request scene_A [fox] ''whimsical'' (AGE_STYLE_TAGS Age_5_7) (Some calm) False)"
    by (simp only: scene_request_sliders book_fields append_Nil)
  then obtain n where n: "?sent = replicate (Suc n)
      (scene_request scene_A [fox] ''whimsical'' (AGE_STYLE_TAGS Age_5_7) (Some calm) False)" ..
  then have "length ?sent = Suc n" by (simp only: length_replicate)
  moreover have "length ?sent = 1" by (simp add: book_regenerate_run)
  ultimately have "n = 0" by simp
  with n have regen: "?sent =
      [scene_request scene_A [fox] ''whimsical'' (AGE_STYLE_TAGS Age_5_7) (Some calm) False]"
    by simp
  note batch = book_batch_run
  show ?thesis
    unfolding regen batch scene_A_plain scene_B_plain scene_C_plain scene_A_calm
    using f by (intro conjI) (simp_all only: simp_thms)
qed

end
